theory Spec2Isabelle
  imports Complex_Main
begin

section \<open>Values of the program\<close>

text \<open>
  A game document is the Python value that \<open>response.json()\<close> returns: \<open>None\<close>, a bool,
  an int, a float, a str, a list or a dict with str keys. A dict is kept as the list of
  its items in insertion order; a key is looked up with \<open>map_of\<close>. Floats are only passed
  through, compared with \<open>4\<close> and tested for truth, so a finite float is kept as the real
  number it denotes.
\<close>

datatype json =
    JNull
  | JBool bool
  | JInt int
  | JFloat real
  | JStr string
  | JArr "json list"
  | JObj "(string \<times> json) list"

text \<open>
  A field of an output record holds a value taken from the document (\<open>None\<close> when a
  \<open>dict.get\<close> found no key), a bool computed by the program, or \<open>np.nan\<close>.
\<close>

datatype pyval = J json | NaN

type_synonym pydict = "(string \<times> pyval) list"

datatype error =
    AttributeError
  | TypeError
  | IndexError
  | KeyError
  | BadResponseCode string int
  | RequestError string

definition rbind :: "error + 'a \<Rightarrow> ('a \<Rightarrow> error + 'b) \<Rightarrow> error + 'b" where
  "rbind m f = (case m of Inl e \<Rightarrow> Inl e | Inr x \<Rightarrow> f x)"

section \<open>Python primitives used by the flattener\<close>

text \<open>\<open>x.get(k, d)\<close>: only a dict has the method; any other value raises AttributeError.\<close>

fun dict_get :: "json \<Rightarrow> string \<Rightarrow> json \<Rightarrow> error + json" where
  "dict_get (JObj kvs) k d = Inr (case map_of kvs k of None \<Rightarrow> d | Some v \<Rightarrow> v)"
| "dict_get _ k d = Inl AttributeError"

text \<open>\<open>x.get(k)\<close> is \<open>x.get(k, None)\<close>; the literal \<open>{}\<close> is the empty dict.\<close>

definition get :: "json \<Rightarrow> string \<Rightarrow> error + json" where
  "get x k = dict_get x k JNull"

definition empty_dict :: json where
  "empty_dict = JObj []"

text \<open>Truth value of a Python object, as \<open>if\<close>, \<open>or\<close> and the conditional expression test it.\<close>

fun truthy :: "json \<Rightarrow> bool" where
  "truthy JNull = False"
| "truthy (JBool b) = b"
| "truthy (JInt i) = (i \<noteq> 0)"
| "truthy (JFloat r) = (r \<noteq> 0)"
| "truthy (JStr s) = (s \<noteq> [])"
| "truthy (JArr xs) = (xs \<noteq> [])"
| "truthy (JObj kvs) = (kvs \<noteq> [])"

text \<open>\<open>x == n\<close> for an int literal \<open>n\<close>: numbers compare by value, a bool is the int 0 or 1.\<close>

fun py_eq_int :: "json \<Rightarrow> int \<Rightarrow> bool" where
  "py_eq_int (JInt i) n = (i = n)"
| "py_eq_int (JFloat r) n = (r = of_int n)"
| "py_eq_int (JBool b) n = ((if b then 1 else 0) = n)"
| "py_eq_int _ n = False"

text \<open>\<open>s in x\<close> for a str \<open>s\<close>: a key of a dict, an element of a list, a substring of a str.\<close>

fun substring :: "string \<Rightarrow> string \<Rightarrow> bool" where
  "substring pat [] = (pat = [])"
| "substring pat (c # cs) = (take (length pat) (c # cs) = pat \<or> substring pat cs)"

fun str_in :: "string \<Rightarrow> json \<Rightarrow> error + bool" where
  "str_in s (JObj kvs) = Inr (map_of kvs s \<noteq> None)"
| "str_in s (JArr xs) = Inr (JStr s \<in> set xs)"
| "str_in s (JStr t) = Inr (substring s t)"
| "str_in s _ = Inl TypeError"

text \<open>\<open>v in xs\<close> for a list of str literals: \<open>==\<close> with a str holds for the same str only.\<close>

definition in_str_list :: "json \<Rightarrow> string list \<Rightarrow> bool" where
  "in_str_list v xs = (case v of JStr s \<Rightarrow> s \<in> set xs | _ \<Rightarrow> False)"

text \<open>Iteration (\<open>for\<close>, \<open>enumerate\<close>): a list gives its elements, a dict its keys, a str its
  characters; \<open>None\<close>, a bool and a number are not iterable.\<close>

fun py_iter :: "json \<Rightarrow> error + json list" where
  "py_iter (JArr xs) = Inr xs"
| "py_iter (JObj kvs) = Inr (map (\<lambda>kv. JStr (fst kv)) kvs)"
| "py_iter (JStr s) = Inr (map (\<lambda>c. JStr [c]) s)"
| "py_iter _ = Inl TypeError"

fun py_len :: "json \<Rightarrow> error + int" where
  "py_len (JArr xs) = Inr (int (length xs))"
| "py_len (JObj kvs) = Inr (int (length kvs))"
| "py_len (JStr s) = Inr (int (length s))"
| "py_len _ = Inl TypeError"

text \<open>\<open>x[i]\<close> for an int \<open>i\<close>. A list or a str of length \<open>len\<close> takes the indices from
  \<open>-len\<close> to \<open>len - 1\<close>, the negative ones counted from the end, and raises IndexError for
  any other; a dict of str keys has no int key; nothing else can be subscripted.\<close>

definition seq_index :: "'a list \<Rightarrow> int \<Rightarrow> error + 'a" where
  "seq_index xs i =
     (if 0 \<le> i \<and> i < int (length xs) then Inr (xs ! nat i)
      else if i < 0 \<and> - int (length xs) \<le> i then Inr (xs ! nat (int (length xs) + i))
      else Inl IndexError)"

fun py_index :: "json \<Rightarrow> int \<Rightarrow> error + json" where
  "py_index (JArr xs) i = seq_index xs i"
| "py_index (JStr s) i = rbind (seq_index s i) (\<lambda>c. Inr (JStr [c]))"
| "py_index (JObj kvs) i = Inl KeyError"
| "py_index _ i = Inl TypeError"

subsection \<open>Building a dict\<close>

text \<open>\<open>d[k] = v\<close>: an existing key keeps its place and takes the new value, a new key goes
  to the end. \<open>d.update(e)\<close> stores the items of \<open>e\<close> in order.\<close>

fun setitem :: "pydict \<Rightarrow> string \<Rightarrow> pyval \<Rightarrow> pydict" where
  "setitem [] k v = [(k, v)]"
| "setitem (kv # d) k v = (if fst kv = k then (k, v) # d else kv # setitem d k v)"

fun update :: "pydict \<Rightarrow> pydict \<Rightarrow> pydict" where
  "update d [] = d"
| "update d (kv # e) = update (setitem d (fst kv) (snd kv)) e"

text \<open>A dict display \<open>{k: e, **f, ...}\<close> evaluates its items from left to right and stores
  each one; the first item that raises ends the evaluation.\<close>

datatype entry = KV string "error + pyval" | Spread "error + pydict"

fun dict_display :: "pydict \<Rightarrow> entry list \<Rightarrow> error + pydict" where
  "dict_display acc [] = Inr acc"
| "dict_display acc (KV k e # es) = rbind e (\<lambda>v. dict_display (setitem acc k v) es)"
| "dict_display acc (Spread e # es) = rbind e (\<lambda>d. dict_display (update acc d) es)"

text \<open>An item \<open>k: x.get(a)\<close> and an item \<open>k: x.get(a, {}).get(b)\<close>.\<close>

definition field :: "string \<Rightarrow> json \<Rightarrow> string \<Rightarrow> entry" where
  "field k x a = KV k (rbind (get x a) (\<lambda>v. Inr (J v)))"

definition field2 :: "string \<Rightarrow> json \<Rightarrow> string \<Rightarrow> string \<Rightarrow> entry" where
  "field2 k x a b =
     KV k (rbind (dict_get x a empty_dict) (\<lambda>y. rbind (get y b) (\<lambda>v. Inr (J v))))"

definition nan_field :: "string \<Rightarrow> entry" where
  "nan_field k = KV k (Inr NaN)"

section \<open>The flattener (game.py)\<close>

definition get_team_data :: "json \<Rightarrow> json \<Rightarrow> error + pydict" where
  "get_team_data about play =
     rbind (dict_get play ''game'' empty_dict) (\<lambda>game.
     rbind (dict_get game ''gameData'' empty_dict) (\<lambda>game_data.
     rbind (get about ''isTopInning'') (\<lambda>is_top_inning.
       let batter_team = (if truthy is_top_inning then ''away'' else ''home'');
           pitcher_team = (if truthy is_top_inning then ''home'' else ''away'');
           team = (\<lambda>side k.
             rbind (dict_get game_data ''teams'' empty_dict) (\<lambda>teams.
             rbind (dict_get teams side empty_dict) (\<lambda>t.
             rbind (get t k) (\<lambda>v. Inr (J v)))))
       in dict_display []
            [KV ''batter_team'' (team batter_team ''abbreviation''),
             KV ''batter_team_id'' (team batter_team ''id''),
             KV ''pitcher_team'' (team pitcher_team ''abbreviation''),
             KV ''pitcher_team_id'' (team pitcher_team ''id'')])))"

definition get_count_data :: "json \<Rightarrow> json \<Rightarrow> nat \<Rightarrow> error + pydict" where
  "get_count_data play event n =
     rbind (dict_get play ''playEvents'' (JArr [])) (\<lambda>play_events.
     rbind (dict_get event ''count'' empty_dict) (\<lambda>count.
     rbind (if n = 0
            then rbind (get count ''outs'') (\<lambda>outs.
                   Inr (JObj [(''strikes'', JInt 0), (''balls'', JInt 0), (''outs'', outs)]))
            else rbind (py_index play_events (int n - 1)) (\<lambda>prev.
                   dict_get prev ''count'' empty_dict)) (\<lambda>prev_count.
       dict_display []
         [field ''strikes'' prev_count ''strikes'',
          field ''balls'' prev_count ''balls'',
          field ''outs'' prev_count ''outs'',
          field ''strikes_after'' count ''strikes'',
          field ''balls_after'' count ''balls'',
          field ''outs_after'' count ''outs''])))"

definition get_pitch_data :: "json \<Rightarrow> error + pydict" where
  "get_pitch_data pitch_data =
     rbind (dict_get pitch_data ''coordinates'' empty_dict) (\<lambda>coordinates.
     rbind (dict_get pitch_data ''breaks'' empty_dict) (\<lambda>breaks.
       dict_display []
         [field ''start_speed'' pitch_data ''startSpeed'',
          field ''end_speed'' pitch_data ''endSpeed'',
          field ''sz_top'' pitch_data ''strikeZoneTop'',
          field ''sz_bot'' pitch_data ''strikeZoneBottom'',
          field ''x'' coordinates ''x'',
          field ''y'' coordinates ''y'',
          field ''ax'' coordinates ''aX'',
          field ''ay'' coordinates ''aY'',
          field ''az'' coordinates ''aZ'',
          field ''pfxx'' coordinates ''pfxX'',
          field ''pfxz'' coordinates ''pfxZ'',
          field ''px'' coordinates ''pX'',
          field ''pz'' coordinates ''pZ'',
          field ''vx0'' coordinates ''vX0'',
          field ''vy0'' coordinates ''vY0'',
          field ''vz0'' coordinates ''vZ0'',
          field ''x0'' coordinates ''x0'',
          field ''y0'' coordinates ''y0'',
          field ''z0'' coordinates ''z0'',
          field ''zone'' pitch_data ''zone'',
          field ''type_confidence'' pitch_data ''typeConfidence'',
          field ''plate_time'' pitch_data ''plateTime'',
          field ''extension'' pitch_data ''extension'',
          field ''spin_rate'' breaks ''spinRate'',
          field ''spin_direction'' breaks ''spinDirection'',
          field ''vb'' breaks ''breakVertical'',
          field ''ivb'' breaks ''breakVerticalInduced'',
          field ''hb'' breaks ''breakHorizontal'']))"

definition get_hit_data :: "json \<Rightarrow> error + pydict" where
  "get_hit_data hit_data =
     rbind (dict_get hit_data ''coordinates'' empty_dict) (\<lambda>coordinates.
       dict_display []
         [field ''launch_speed'' hit_data ''launchSpeed'',
          field ''launch_angle'' hit_data ''launchAngle'',
          field ''launch_distance'' hit_data ''totalDistance'',
          field ''launch_location'' hit_data ''location'',
          field ''trajectory'' hit_data ''trajectory'',
          field ''hardness'' hit_data ''hardness'',
          field ''hit_x'' coordinates ''coordX'',
          field ''hit_y'' coordinates ''coordY''])"

definition get_ab_result :: "json \<Rightarrow> int \<Rightarrow> int \<Rightarrow> error + pydict" where
  "get_ab_result play n last_event_index =
     rbind (dict_get play ''result'' empty_dict) (\<lambda>result.
       if n = last_event_index
       then dict_display []
              [field ''type_ab'' result ''type'',
               field ''event'' result ''event'',
               field ''event_type'' result ''eventType'',
               field ''rbi'' result ''rbi'',
               field ''away_score'' result ''awayScore'',
               field ''home_score'' result ''homeScore'',
               field ''is_out'' result ''isOut'']
       else dict_display []
              [nan_field ''type_ab'',
               nan_field ''event'',
               nan_field ''event_type'',
               nan_field ''rbi'',
               nan_field ''away_score'',
               nan_field ''home_score'',
               nan_field ''is_out''])"

definition swing_list :: "string list" where
  "swing_list = [''X'', ''F'', ''S'', ''D'', ''E'', ''T'', ''W'']"

definition whiff_list :: "string list" where
  "whiff_list = [''S'', ''T'', ''W'']"

text \<open>The item \<open>k: (details.get("code") in codes if details.get("code") else np.nan)\<close>.\<close>

definition code_flag :: "string \<Rightarrow> json \<Rightarrow> string list \<Rightarrow> entry" where
  "code_flag k details codes =
     KV k (rbind (get details ''code'') (\<lambda>c.
             if truthy c
             then rbind (get details ''code'') (\<lambda>c'. Inr (J (JBool (in_str_list c' codes))))
             else Inr NaN))"

definition extract_event_data :: "json \<Rightarrow> json \<Rightarrow> nat \<Rightarrow> json \<Rightarrow> error + pydict" where
  "extract_event_data play event n play_events =
     rbind (dict_get play ''matchup'' empty_dict) (\<lambda>matchup.
     rbind (dict_get play ''about'' empty_dict) (\<lambda>about.
     rbind (dict_get event ''details'' empty_dict) (\<lambda>details.
       dict_display []
         [field2 ''batter_id'' matchup ''batter'' ''id'',
          field2 ''batter_name'' matchup ''batter'' ''fullName'',
          field2 ''batter_hand'' matchup ''batSide'' ''code'',
          field2 ''pitcher_id'' matchup ''pitcher'' ''id'',
          field2 ''pitcher_name'' matchup ''pitcher'' ''fullName'',
          field2 ''pitcher_hand'' matchup ''pitchHand'' ''code'',
          Spread (get_team_data about play),
          Spread (get_count_data play event n),
          field ''play_description'' details ''description'',
          field ''play_code'' details ''code'',
          field ''in_play'' details ''isInPlay'',
          field ''is_strike'' details ''isStrike'',
          code_flag ''is_swing'' details swing_list,
          code_flag ''is_whiff'' details whiff_list,
          field ''is_ball'' details ''isBall'',
          field ''is_review'' details ''hasReview'',
          field2 ''pitch_type'' details ''type'' ''code'',
          field2 ''pitch_description'' details ''type'' ''description'',
          Spread (rbind (dict_get event ''pitchData'' empty_dict) get_pitch_data),
          Spread (rbind (dict_get event ''hitData'' empty_dict) get_hit_data),
          field ''index_play'' event ''index'',
          field ''play_id'' event ''playId'',
          field ''start_time'' event ''startTime'',
          field ''end_time'' event ''endTime'',
          field ''is_pitch'' event ''isPitch'',
          field ''type_type'' event ''type'',
          Spread (rbind (py_len play_events) (\<lambda>l. get_ab_result play (int n) (l - 1)))])))"

definition remaining_fields :: "string list" where
  "remaining_fields =
     [''play_description'', ''play_code'', ''in_play'', ''is_strike'', ''is_swing'',
      ''is_whiff'', ''is_ball'', ''is_review'', ''pitch_type'', ''pitch_description'',
      ''ab_number'', ''start_speed'', ''end_speed'', ''sz_top'', ''sz_bot'', ''x'', ''y'',
      ''ax'', ''ay'', ''az'', ''pfxx'', ''pfxz'', ''px'', ''pz'', ''vx0'', ''vy0'', ''vz0'',
      ''x0'', ''y0'', ''z0'', ''zone'', ''type_confidence'', ''plate_time'', ''extension'',
      ''spin_rate'', ''spin_direction'', ''vb'', ''ivb'', ''hb'', ''launch_speed'',
      ''launch_angle'', ''launch_distance'', ''launch_location'', ''trajectory'',
      ''hardness'', ''hit_x'', ''hit_y'', ''type_ab'', ''rbi'', ''away_score'',
      ''home_score'', ''is_out'']"

text \<open>The parameter \<open>game_data\<close> of the source is not read by the body.\<close>

definition extract_walk_data :: "json \<Rightarrow> json \<Rightarrow> json \<Rightarrow> error + pydict" where
  "extract_walk_data play event game_data =
     rbind (dict_get play ''matchup'' empty_dict) (\<lambda>matchup.
     rbind (dict_get play ''about'' empty_dict) (\<lambda>about.
     rbind (dict_get event ''count'' empty_dict) (\<lambda>count.
     rbind (dict_display []
         [field2 ''batter_id'' matchup ''batter'' ''id'',
          field2 ''batter_name'' matchup ''batter'' ''fullName'',
          field2 ''batter_hand'' matchup ''batSide'' ''code'',
          field2 ''pitcher_id'' matchup ''pitcher'' ''id'',
          field2 ''pitcher_name'' matchup ''pitcher'' ''fullName'',
          field2 ''pitcher_hand'' matchup ''pitchHand'' ''code'',
          Spread (get_team_data about play),
          Spread (dict_display []
                    [field ''strikes'' count ''strikes'',
                     field ''balls'' count ''balls'',
                     field ''outs'' count ''outs'']),
          Spread (dict_display []
                    [field ''strikes_after'' count ''strikes'',
                     field ''balls_after'' count ''balls'',
                     field ''outs_after'' count ''outs'']),
          field ''index_play'' event ''index'',
          field ''play_id'' event ''playId'',
          field ''start_time'' event ''startTime'',
          field ''end_time'' event ''endTime'',
          field ''is_pitch'' event ''isPitch'',
          field ''type_type'' event ''type'',
          field2 ''event'' play ''result'' ''event'',
          field2 ''event_type'' play ''result'' ''eventType'']) (\<lambda>base_data.
       Inr (update base_data (update [] (map (\<lambda>f. (f, NaN)) remaining_fields)))))))"

text \<open>
  The body of the loop of \<open>_extract_play_data\<close> for the event at index \<open>n\<close>: the record to
  append, or \<open>None\<close> where the source says \<open>continue\<close>.
\<close>

definition is_pitch_or_call :: "json \<Rightarrow> error + bool" where
  "is_pitch_or_call event =
     rbind (get event ''isPitch'') (\<lambda>is_pitch.
       if truthy is_pitch then Inr True
       else rbind (dict_get event ''details'' empty_dict) (\<lambda>details. str_in ''call'' details))"

definition has_four_balls :: "json \<Rightarrow> error + bool" where
  "has_four_balls event =
     rbind (dict_get event ''count'' empty_dict) (\<lambda>count.
     rbind (get count ''balls'') (\<lambda>balls. Inr (py_eq_int balls 4)))"

definition play_event_body :: "json \<Rightarrow> json \<Rightarrow> json \<Rightarrow> nat \<Rightarrow> json \<Rightarrow> error + pydict option" where
  "play_event_body play game_data play_events n event =
     rbind (is_pitch_or_call event) (\<lambda>c.
       if c then rbind (extract_event_data play event n play_events) (\<lambda>event_data.
                   Inr (Some event_data))
       else rbind (has_four_balls event) (\<lambda>w.
              if w then rbind (extract_walk_data play event game_data) (\<lambda>event_data.
                          Inr (Some event_data))
              else Inr None))"

fun play_event_loop ::
  "json \<Rightarrow> json \<Rightarrow> json \<Rightarrow> nat \<Rightarrow> json list \<Rightarrow> pydict list \<Rightarrow> error + pydict list" where
  "play_event_loop play game_data play_events n [] ab_data = Inr ab_data"
| "play_event_loop play game_data play_events n (event # rest) ab_data =
     rbind (play_event_body play game_data play_events n event) (\<lambda>r.
       play_event_loop play game_data play_events (Suc n) rest
         (case r of None \<Rightarrow> ab_data | Some event_data \<Rightarrow> ab_data @ [event_data]))"

definition extract_play_data :: "json \<Rightarrow> json \<Rightarrow> error + pydict list" where
  "extract_play_data play game_data =
     rbind (dict_get play ''playEvents'' (JArr [])) (\<lambda>play_events.
     rbind (py_iter play_events) (\<lambda>events.
       play_event_loop play game_data play_events 0 events []))"

text \<open>
  The list comprehension of \<open>_game_to_df\<close>: every record of every play, in order, with
  \<open>game_id\<close> and \<open>game_date\<close> stored into it.
\<close>

fun flatten_plays :: "json \<Rightarrow> json \<Rightarrow> json \<Rightarrow> json list \<Rightarrow> error + pydict list" where
  "flatten_plays game_data game_id game_date [] = Inr []"
| "flatten_plays game_data game_id game_date (play # plays) =
     rbind (extract_play_data play game_data) (\<lambda>ab_data.
     rbind (flatten_plays game_data game_id game_date plays) (\<lambda>rest.
       Inr (map (\<lambda>event_data.
                   setitem (setitem event_data ''game_id'' (J game_id)) ''game_date'' (J game_date))
              ab_data @ rest)))"

definition flattened_data :: "json \<Rightarrow> error + pydict list" where
  "flattened_data game_data =
     rbind (get game_data ''gamePk'') (\<lambda>game_id.
     rbind (dict_get game_data ''gameData'' empty_dict) (\<lambda>gd.
     rbind (dict_get gd ''datetime'' empty_dict) (\<lambda>dt.
     rbind (get dt ''officialDate'') (\<lambda>game_date.
     rbind (dict_get game_data ''liveData'' empty_dict) (\<lambda>ld.
     rbind (dict_get ld ''plays'' empty_dict) (\<lambda>pl.
     rbind (dict_get pl ''allPlays'' (JArr [])) (\<lambda>all_plays.
     rbind (py_iter all_plays) (\<lambda>plays.
       flatten_plays game_data game_id game_date plays))))))))"

text \<open>
  \<open>pl.DataFrame\<close> belongs to the polars library; it is the parameter \<open>data_frame\<close>, which
  may raise.
\<close>

definition game_to_df :: "(pydict list \<Rightarrow> error + 'df) \<Rightarrow> json \<Rightarrow> error + 'df" where
  "game_to_df data_frame game_data = rbind (flattened_data game_data) data_frame"

section \<open>Fetching several games (games)\<close>

fun str_nat :: "nat \<Rightarrow> string" where
  "str_nat n =
     (if n < 10 then [char_of (48 + n)] else str_nat (n div 10) @ [char_of (48 + n mod 10)])"

declare str_nat.simps [simp del]

definition str_int :: "int \<Rightarrow> string" where
  "str_int i = (if i < 0 then CHR ''-'' # str_nat (nat (- i)) else str_nat (nat i))"

definition ROOT_URL :: string where
  "ROOT_URL = ''https://statsapi.mlb.com''"

definition GAME_ENDPOINT_ROOT :: "int \<Rightarrow> string" where
  "GAME_ENDPOINT_ROOT game_id = ROOT_URL @ ''/api/v1.1/game/'' @ str_int game_id @ ''/feed/live''"

text \<open>
  What \<open>requests.get\<close> returns: the status code, and what \<open>response.json()\<close> gives or
  raises. The call itself is the parameter \<open>requests_get\<close> and may raise too.
\<close>

record response =
  status_code :: int
  json_body :: "error + json"

definition game_task ::
  "(string \<Rightarrow> error + response) \<Rightarrow> (pydict list \<Rightarrow> error + 'df) \<Rightarrow> int \<Rightarrow> error + (int \<times> 'df)" where
  "game_task requests_get data_frame game_id =
     (let live_game_url = GAME_ENDPOINT_ROOT game_id
      in rbind (requests_get live_game_url) (\<lambda>response.
           if status_code response \<noteq> 200
           then Inl (BadResponseCode live_game_url (status_code response))
           else rbind (json_body response) (\<lambda>doc.
                rbind (game_to_df data_frame doc) (\<lambda>df. Inr (game_id, df)))))"

text \<open>
  The loop over \<open>as_completed(futures)\<close>. A future holds what its task returned or raised,
  and \<open>future.result()\<close> returns or raises it again inside the \<open>try\<close>. The state is the
  dict \<open>game_data\<close> and the exceptions whose message the handler printed. The order in
  which the futures complete is not fixed by the program: it is the parameter
  \<open>completed\<close>, the indices of the futures in that order.
\<close>

fun collect ::
  "(error + (int \<times> 'df)) list \<Rightarrow> nat list \<Rightarrow> (int \<rightharpoonup> 'df) \<times> error list \<Rightarrow>
   (int \<rightharpoonup> 'df) \<times> error list" where
  "collect futures [] st = st"
| "collect futures (i # completed) st =
     collect futures completed
       (case futures ! i of
          Inr (game_id, df) \<Rightarrow> ((fst st)(game_id \<mapsto> df), snd st)
        | Inl e \<Rightarrow> (fst st, snd st @ [e]))"

definition games ::
  "(string \<Rightarrow> error + response) \<Rightarrow> (pydict list \<Rightarrow> error + 'df) \<Rightarrow> nat list \<Rightarrow> int list \<Rightarrow>
   (int \<rightharpoonup> 'df) \<times> error list" where
  "games requests_get data_frame completed game_ids =
     (let futures = map (game_task requests_get data_frame) game_ids
      in collect futures completed (Map.empty, []))"

section \<open>Normal forms of the records\<close>

text \<open>
  Total readings of a dict, used to state what the functions above return: \<open>get_or\<close> is
  the value of \<open>d.get(k, default)\<close>, \<open>val\<close> the value of \<open>d.get(k)\<close>, \<open>has_obj\<close> says that
  \<open>d.get(k, {})\<close> is a dict and \<open>child\<close> gives its items.
\<close>

definition get_or :: "(string \<times> json) list \<Rightarrow> string \<Rightarrow> json \<Rightarrow> json" where
  "get_or kvs k d = (case map_of kvs k of None \<Rightarrow> d | Some v \<Rightarrow> v)"

definition val :: "(string \<times> json) list \<Rightarrow> string \<Rightarrow> json" where
  "val kvs k = get_or kvs k JNull"

definition has_obj :: "(string \<times> json) list \<Rightarrow> string \<Rightarrow> bool" where
  "has_obj kvs k = (case get_or kvs k empty_dict of JObj y \<Rightarrow> True | _ \<Rightarrow> False)"

definition child :: "(string \<times> json) list \<Rightarrow> string \<Rightarrow> (string \<times> json) list" where
  "child kvs k = (case get_or kvs k empty_dict of JObj y \<Rightarrow> y | _ \<Rightarrow> [])"

definition obj_items :: "json \<Rightarrow> (string \<times> json) list" where
  "obj_items x = (case x of JObj kvs \<Rightarrow> kvs | _ \<Rightarrow> [])"

definition hit_items :: "(string \<times> json) list \<Rightarrow> pydict" where
  "hit_items h =
     [(''launch_speed'', J (val h ''launchSpeed'')),
      (''launch_angle'', J (val h ''launchAngle'')),
      (''launch_distance'', J (val h ''totalDistance'')),
      (''launch_location'', J (val h ''location'')),
      (''trajectory'', J (val h ''trajectory'')),
      (''hardness'', J (val h ''hardness'')),
      (''hit_x'', J (val (child h ''coordinates'') ''coordX'')),
      (''hit_y'', J (val (child h ''coordinates'') ''coordY''))]"

definition pitch_items :: "(string \<times> json) list \<Rightarrow> pydict" where
  "pitch_items p =
     [(''start_speed'', J (val p ''startSpeed'')),
      (''end_speed'', J (val p ''endSpeed'')),
      (''sz_top'', J (val p ''strikeZoneTop'')),
      (''sz_bot'', J (val p ''strikeZoneBottom'')),
      (''x'', J (val (child p ''coordinates'') ''x'')),
      (''y'', J (val (child p ''coordinates'') ''y'')),
      (''ax'', J (val (child p ''coordinates'') ''aX'')),
      (''ay'', J (val (child p ''coordinates'') ''aY'')),
      (''az'', J (val (child p ''coordinates'') ''aZ'')),
      (''pfxx'', J (val (child p ''coordinates'') ''pfxX'')),
      (''pfxz'', J (val (child p ''coordinates'') ''pfxZ'')),
      (''px'', J (val (child p ''coordinates'') ''pX'')),
      (''pz'', J (val (child p ''coordinates'') ''pZ'')),
      (''vx0'', J (val (child p ''coordinates'') ''vX0'')),
      (''vy0'', J (val (child p ''coordinates'') ''vY0'')),
      (''vz0'', J (val (child p ''coordinates'') ''vZ0'')),
      (''x0'', J (val (child p ''coordinates'') ''x0'')),
      (''y0'', J (val (child p ''coordinates'') ''y0'')),
      (''z0'', J (val (child p ''coordinates'') ''z0'')),
      (''zone'', J (val p ''zone'')),
      (''type_confidence'', J (val p ''typeConfidence'')),
      (''plate_time'', J (val p ''plateTime'')),
      (''extension'', J (val p ''extension'')),
      (''spin_rate'', J (val (child p ''breaks'') ''spinRate'')),
      (''spin_direction'', J (val (child p ''breaks'') ''spinDirection'')),
      (''vb'', J (val (child p ''breaks'') ''breakVertical'')),
      (''ivb'', J (val (child p ''breaks'') ''breakVerticalInduced'')),
      (''hb'', J (val (child p ''breaks'') ''breakHorizontal''))]"

definition roster :: "(string \<times> json) list \<Rightarrow> (string \<times> json) list" where
  "roster p = child (child (child p ''game'') ''gameData'') ''teams''"

definition team_items :: "(string \<times> json) list \<Rightarrow> (string \<times> json) list \<Rightarrow> pydict" where
  "team_items a p =
     [(''batter_team'',
         J (val (child (roster p) (if truthy (val a ''isTopInning'') then ''away'' else ''home''))
              ''abbreviation'')),
      (''batter_team_id'',
         J (val (child (roster p) (if truthy (val a ''isTopInning'') then ''away'' else ''home''))
              ''id'')),
      (''pitcher_team'',
         J (val (child (roster p) (if truthy (val a ''isTopInning'') then ''home'' else ''away''))
              ''abbreviation'')),
      (''pitcher_team_id'',
         J (val (child (roster p) (if truthy (val a ''isTopInning'') then ''home'' else ''away''))
              ''id''))]"

definition count_items :: "(string \<times> json) list \<Rightarrow> (string \<times> json) list \<Rightarrow> pydict" where
  "count_items prev c =
     [(''strikes'', J (val prev ''strikes'')),
      (''balls'', J (val prev ''balls'')),
      (''outs'', J (val prev ''outs'')),
      (''strikes_after'', J (val c ''strikes'')),
      (''balls_after'', J (val c ''balls'')),
      (''outs_after'', J (val c ''outs''))]"

definition result_items :: "(string \<times> json) list \<Rightarrow> pydict" where
  "result_items r =
     [(''type_ab'', J (val r ''type'')),
      (''event'', J (val r ''event'')),
      (''event_type'', J (val r ''eventType'')),
      (''rbi'', J (val r ''rbi'')),
      (''away_score'', J (val r ''awayScore'')),
      (''home_score'', J (val r ''homeScore'')),
      (''is_out'', J (val r ''isOut''))]"

definition nan_result_items :: pydict where
  "nan_result_items =
     [(''type_ab'', NaN), (''event'', NaN), (''event_type'', NaN), (''rbi'', NaN),
      (''away_score'', NaN), (''home_score'', NaN), (''is_out'', NaN)]"

text \<open>The items of a dict display, in order, when no item raises.\<close>

fun items_of :: "entry list \<Rightarrow> error + pydict" where
  "items_of [] = Inr []"
| "items_of (KV k e # es) = rbind e (\<lambda>v. rbind (items_of es) (\<lambda>r. Inr ((k, v) # r)))"
| "items_of (Spread e # es) = rbind e (\<lambda>d. rbind (items_of es) (\<lambda>r. Inr (d @ r)))"

definition matchup_items :: "(string \<times> json) list \<Rightarrow> pydict" where
  "matchup_items m =
     [(''batter_id'', J (val (child m ''batter'') ''id'')),
      (''batter_name'', J (val (child m ''batter'') ''fullName'')),
      (''batter_hand'', J (val (child m ''batSide'') ''code'')),
      (''pitcher_id'', J (val (child m ''pitcher'') ''id'')),
      (''pitcher_name'', J (val (child m ''pitcher'') ''fullName'')),
      (''pitcher_hand'', J (val (child m ''pitchHand'') ''code''))]"

definition details_items :: "(string \<times> json) list \<Rightarrow> pydict" where
  "details_items d =
     [(''play_description'', J (val d ''description'')),
      (''play_code'', J (val d ''code'')),
      (''in_play'', J (val d ''isInPlay'')),
      (''is_strike'', J (val d ''isStrike'')),
      (''is_swing'', if truthy (val d ''code'')
                     then J (JBool (in_str_list (val d ''code'') swing_list)) else NaN),
      (''is_whiff'', if truthy (val d ''code'')
                     then J (JBool (in_str_list (val d ''code'') whiff_list)) else NaN),
      (''is_ball'', J (val d ''isBall'')),
      (''is_review'', J (val d ''hasReview'')),
      (''pitch_type'', J (val (child d ''type'') ''code'')),
      (''pitch_description'', J (val (child d ''type'') ''description''))]"

definition own_items :: "(string \<times> json) list \<Rightarrow> pydict" where
  "own_items e =
     [(''index_play'', J (val e ''index'')),
      (''play_id'', J (val e ''playId'')),
      (''start_time'', J (val e ''startTime'')),
      (''end_time'', J (val e ''endTime'')),
      (''is_pitch'', J (val e ''isPitch'')),
      (''type_type'', J (val e ''type''))]"

definition event_record ::
  "(string \<times> json) list \<Rightarrow> (string \<times> json) list \<Rightarrow> pydict \<Rightarrow> pydict \<Rightarrow> pydict" where
  "event_record p e cnt ab =
     matchup_items (child p ''matchup'') @ team_items (child p ''about'') p @ cnt @
     details_items (child e ''details'') @ pitch_items (child e ''pitchData'') @
     hit_items (child e ''hitData'') @ own_items e @ ab"


definition event_shape :: "(string \<times> json) list \<Rightarrow> (string \<times> json) list \<Rightarrow> bool" where
  "event_shape p e \<longleftrightarrow>
     has_obj p ''matchup'' \<and>
     has_obj (child p ''matchup'') ''batter'' \<and>
     has_obj (child p ''matchup'') ''batSide'' \<and>
     has_obj (child p ''matchup'') ''pitcher'' \<and>
     has_obj (child p ''matchup'') ''pitchHand'' \<and>
     has_obj p ''about'' \<and>
     has_obj p ''game'' \<and>
     has_obj (child p ''game'') ''gameData'' \<and>
     has_obj (child (child p ''game'') ''gameData'') ''teams'' \<and>
     has_obj (roster p) ''away'' \<and>
     has_obj (roster p) ''home'' \<and>
     has_obj e ''details'' \<and>
     has_obj (child e ''details'') ''type'' \<and>
     has_obj e ''pitchData'' \<and>
     has_obj (child e ''pitchData'') ''coordinates'' \<and>
     has_obj (child e ''pitchData'') ''breaks'' \<and>
     has_obj e ''hitData'' \<and>
     has_obj (child e ''hitData'') ''coordinates''"

definition walk_shape :: "(string \<times> json) list \<Rightarrow> (string \<times> json) list \<Rightarrow> bool" where
  "walk_shape p e \<longleftrightarrow>
     has_obj p ''matchup'' \<and>
     has_obj (child p ''matchup'') ''batter'' \<and>
     has_obj (child p ''matchup'') ''batSide'' \<and>
     has_obj (child p ''matchup'') ''pitcher'' \<and>
     has_obj (child p ''matchup'') ''pitchHand'' \<and>
     has_obj p ''about'' \<and>
     has_obj p ''game'' \<and>
     has_obj (child p ''game'') ''gameData'' \<and>
     has_obj (child (child p ''game'') ''gameData'') ''teams'' \<and>
     has_obj (roster p) ''away'' \<and>
     has_obj (roster p) ''home'' \<and>
     has_obj e ''count'' \<and>
     has_obj p ''result''"

definition walk_base :: "(string \<times> json) list \<Rightarrow> (string \<times> json) list \<Rightarrow> pydict" where
  "walk_base p e =
     matchup_items (child p ''matchup'') @ team_items (child p ''about'') p @
     count_items (child e ''count'') (child e ''count'') @ own_items e @
     [(''event'', J (val (child p ''result'') ''event'')),
      (''event_type'', J (val (child p ''result'') ''eventType''))]"

definition walk_record :: "(string \<times> json) list \<Rightarrow> (string \<times> json) list \<Rightarrow> pydict" where
  "walk_record p e = walk_base p e @ map (\<lambda>f. (f, NaN)) remaining_fields"

text \<open>The values of a record at a list of field names (\<open>None\<close> for a name it does not have).\<close>

definition values_at :: "string list \<Rightarrow> pydict \<Rightarrow> pyval option list" where
  "values_at ks r = map (map_of r) ks"

section \<open>Example documents\<close>

text \<open>
  A plate appearance of three events: a ball whose details hold a call but no code (as in
  the fixture of the tests), a pickoff that is neither a pitch nor a call and puts a runner
  out, and a ball put in play.
\<close>

definition ex_pitch_b :: json where
  "ex_pitch_b = JObj
     [(''details'', JObj [(''call'', JObj [(''code'', JStr ''B'')]),
                          (''description'', JStr ''Ball''), (''isBall'', JBool True)]),
      (''count'', JObj [(''balls'', JInt 1), (''strikes'', JInt 0), (''outs'', JInt 1)]),
      (''pitchData'', JObj [(''startSpeed'', JFloat 90.5)]),
      (''index'', JInt 0), (''isPitch'', JBool True), (''type'', JStr ''pitch'')]"

definition ex_pickoff :: json where
  "ex_pickoff = JObj
     [(''details'', JObj [(''description'', JStr ''Pickoff'')]),
      (''count'', JObj [(''balls'', JInt 1), (''strikes'', JInt 0), (''outs'', JInt 2)]),
      (''index'', JInt 1), (''isPitch'', JBool False), (''type'', JStr ''action'')]"

definition ex_pitch_x :: json where
  "ex_pitch_x = JObj
     [(''details'', JObj [(''call'', JObj [(''code'', JStr ''X'')]), (''code'', JStr ''X''),
                          (''description'', JStr ''In play''), (''isInPlay'', JBool True)]),
      (''count'', JObj [(''balls'', JInt 1), (''strikes'', JInt 0), (''outs'', JInt 2)]),
      (''index'', JInt 2), (''isPitch'', JBool True), (''type'', JStr ''pitch'')]"

definition ex_events :: json where
  "ex_events = JArr [ex_pitch_b, ex_pickoff, ex_pitch_x]"

definition ex_play :: json where
  "ex_play = JObj
     [(''result'', JObj [(''type'', JStr ''atBat''), (''event'', JStr ''Single''),
                         (''eventType'', JStr ''single''), (''rbi'', JInt 0)]),
      (''about'', JObj [(''isTopInning'', JBool True)]),
      (''matchup'', JObj [(''batter'', JObj [(''id'', JInt 123), (''fullName'', JStr ''John Doe'')]),
                          (''pitcher'', JObj [(''id'', JInt 456)])]),
      (''playEvents'', ex_events)]"

definition ex_doc :: json where
  "ex_doc = JObj
     [(''gamePk'', JInt 12345),
      (''gameData'', JObj
         [(''datetime'', JObj [(''officialDate'', JStr ''2023-07-01'')]),
          (''teams'', JObj [(''away'', JObj [(''abbreviation'', JStr ''NYY''), (''id'', JInt 1)]),
                            (''home'', JObj [(''abbreviation'', JStr ''BOS''), (''id'', JInt 2)])])]),
      (''liveData'', JObj [(''plays'', JObj [(''allPlays'', JArr [ex_play])])])]"

text \<open>
  A plate appearance whose only event is an intentional walk: no pitch, no call, four balls
  in the count.
\<close>

definition ex_walk_event :: json where
  "ex_walk_event = JObj
     [(''details'', JObj [(''description'', JStr ''Intentional Walk'')]),
      (''count'', JObj [(''balls'', JInt 4), (''strikes'', JInt 2), (''outs'', JInt 1)]),
      (''index'', JInt 0), (''isPitch'', JBool False), (''type'', JStr ''action'')]"

definition ex_walk_play :: json where
  "ex_walk_play = JObj
     [(''result'', JObj [(''type'', JStr ''atBat''), (''event'', JStr ''Intent Walk''),
                         (''eventType'', JStr ''intent_walk''), (''rbi'', JInt 1),
                         (''awayScore'', JInt 0), (''homeScore'', JInt 1),
                         (''isOut'', JBool False)]),
      (''about'', JObj [(''isTopInning'', JBool False)]),
      (''matchup'', JObj [(''batter'', JObj [(''id'', JInt 123)])]),
      (''playEvents'', JArr [ex_walk_event])]"

definition ex_walk_doc :: json where
  "ex_walk_doc = JObj
     [(''gamePk'', JInt 12346),
      (''liveData'', JObj [(''plays'', JObj [(''allPlays'', JArr [ex_walk_play])])])]"

text \<open>
  A plate appearance with a pitch and then the intentional walk, in a document of its own.
\<close>

definition ex_mixed_play :: json where
  "ex_mixed_play = JObj
     [(''result'', JObj [(''type'', JStr ''atBat''), (''event'', JStr ''Intent Walk''),
                         (''eventType'', JStr ''intent_walk'')]),
      (''about'', JObj [(''isTopInning'', JBool False)]),
      (''matchup'', JObj [(''batter'', JObj [(''id'', JInt 123)])]),
      (''playEvents'', JArr [ex_pitch_b, ex_walk_event])]"

definition ex_mixed_doc :: json where
  "ex_mixed_doc = JObj
     [(''gamePk'', JInt 12347),
      (''liveData'', JObj [(''plays'', JObj [(''allPlays'', JArr [ex_mixed_play])])])]"

section \<open>What the functions return\<close>

lemma rbind_eq_Inr [simp]: "(rbind m f = Inr y) = (\<exists>x. m = Inr x \<and> f x = Inr y)"
  by (cases m) (simp_all add: rbind_def)

lemma rbind_Inr [simp]: "rbind (Inr x) f = f x"
  by (simp add: rbind_def)

lemma rbind_Inl [simp]: "rbind (Inl e) f = Inl e"
  by (simp add: rbind_def)

declare dict_get.simps(1) [simp del]

lemma dict_get_JObj [simp]: "dict_get (JObj kvs) k d = Inr (get_or kvs k d)"
  by (simp add: get_or_def dict_get.simps(1))

lemma dict_get_eq_Inr: "(dict_get x k d = Inr v) = (\<exists>kvs. x = JObj kvs \<and> v = get_or kvs k d)"
  by (cases x) auto

lemma get_JObj [simp]: "get (JObj kvs) k = Inr (val kvs k)"
  by (simp add: get_def val_def)

lemma get_eq_Inr: "(get x k = Inr v) = (\<exists>kvs. x = JObj kvs \<and> v = val kvs k)"
  by (cases x) (auto simp: get_def val_def)

lemma get_or_empty_obj: "(get_or kvs k empty_dict = JObj y) = (has_obj kvs k \<and> y = child kvs k)"
  by (auto simp: has_obj_def child_def split: json.splits)

lemma get_or_empty_obj_sym:
  "(JObj y = get_or kvs k empty_dict) = (has_obj kvs k \<and> y = child kvs k)"
  using get_or_empty_obj [of kvs k y] by auto

lemma has_obj_get_or: "has_obj kvs k \<Longrightarrow> get_or kvs k empty_dict = JObj (child kvs k)"
  by (simp add: get_or_empty_obj)

lemma field_Inr:
  "dict_display acc (field k x a # es) = Inr r \<longleftrightarrow>
   (\<exists>d. x = JObj d \<and> dict_display (setitem acc k (J (val d a))) es = Inr r)"
  unfolding field_def
  by (auto simp: get_eq_Inr)

lemma field2_Inr:
  "dict_display acc (field2 k x a b # es) = Inr r \<longleftrightarrow>
   (\<exists>d. x = JObj d \<and> has_obj d a \<and>
      dict_display (setitem acc k (J (val (child d a) b))) es = Inr r)"
  unfolding field2_def
  by (cases x) (auto simp: get_eq_Inr get_or_empty_obj)

lemma code_flag_JObj:
  "code_flag k (JObj d) codes =
   KV k (Inr (if truthy (val d ''code'')
              then J (JBool (in_str_list (val d ''code'') codes)) else NaN))"
  by (simp add: code_flag_def)

lemma code_flag_not_obj:
  "\<forall>d. details \<noteq> JObj d \<Longrightarrow> code_flag k details codes = KV k (Inl AttributeError)"
  by (cases details) (simp_all add: code_flag_def get_def)

lemma code_flag_Inr:
  "dict_display acc (code_flag k details codes # es) = Inr r \<longleftrightarrow>
   (\<exists>d. details = JObj d \<and>
      dict_display (setitem acc k (if truthy (val d ''code'')
                                   then J (JBool (in_str_list (val d ''code'') codes)) else NaN)) es = Inr r)"
proof (cases "\<exists>d. details = JObj d")
  case True
  then show ?thesis by (auto simp: code_flag_JObj)
next
  case False
  then show ?thesis by (simp add: code_flag_not_obj)
qed

lemma nan_field_Inr:
  "dict_display acc (nan_field k # es) = Inr r \<longleftrightarrow> dict_display (setitem acc k NaN) es = Inr r"
  by (simp add: nan_field_def)

lemmas entry_Inr = field_Inr field2_Inr code_flag_Inr nan_field_Inr

lemma get_hit_data_iff:
  "get_hit_data x = Inr d \<longleftrightarrow>
   (\<exists>h. x = JObj h \<and> has_obj h ''coordinates'' \<and> d = hit_items h)"
  unfolding get_hit_data_def hit_items_def
  by (cases x) (auto simp: entry_Inr get_or_empty_obj)

lemma get_pitch_data_iff:
  "get_pitch_data x = Inr d \<longleftrightarrow>
   (\<exists>p. x = JObj p \<and> has_obj p ''coordinates'' \<and> has_obj p ''breaks'' \<and> d = pitch_items p)"
  unfolding get_pitch_data_def pitch_items_def
  by (cases x) (auto simp: entry_Inr get_or_empty_obj)

lemma get_ab_result_iff:
  "get_ab_result x n l = Inr d \<longleftrightarrow>
   (\<exists>p. x = JObj p \<and>
      (if n = l then has_obj p ''result'' \<and> d = result_items (child p ''result'')
       else d = nan_result_items))"
  unfolding get_ab_result_def result_items_def nan_result_items_def
  by (cases x) (auto simp: entry_Inr get_or_empty_obj)


lemma get_team_data_iff:
  "get_team_data x y = Inr d \<longleftrightarrow>
   (\<exists>a p. x = JObj a \<and> y = JObj p \<and>
      has_obj p ''game'' \<and> has_obj (child p ''game'') ''gameData'' \<and>
      has_obj (child (child p ''game'') ''gameData'') ''teams'' \<and>
      has_obj (roster p) ''away'' \<and> has_obj (roster p) ''home'' \<and>
      d = team_items a p)"
proof (cases "\<exists>a p. x = JObj a \<and> y = JObj p \<and>
      has_obj p ''game'' \<and> has_obj (child p ''game'') ''gameData'' \<and>
      has_obj (child (child p ''game'') ''gameData'') ''teams'' \<and>
      has_obj (roster p) ''away'' \<and> has_obj (roster p) ''home''")
  case True
  then obtain a p where xy: "x = JObj a" "y = JObj p" and
    h: "has_obj p ''game''" "has_obj (child p ''game'') ''gameData''"
       "has_obj (child (child p ''game'') ''gameData'') ''teams''"
       "has_obj (child (child (child p ''game'') ''gameData'') ''teams'') ''away''"
       "has_obj (child (child (child p ''game'') ''gameData'') ''teams'') ''home''"
    unfolding roster_def by blast
  have "get_team_data x y = Inr (team_items a p)"
    using xy h
    by (simp add: get_team_data_def team_items_def roster_def Let_def has_obj_get_or)
  with xy h show ?thesis unfolding roster_def by auto
next
  case False
  then have "get_team_data x y \<noteq> Inr d"
    unfolding get_team_data_def roster_def Let_def
    by (auto simp: dict_get_eq_Inr get_eq_Inr get_or_empty_obj get_or_empty_obj_sym
          split: if_splits)
  with False show ?thesis by blast
qed

lemma val_Nil: "val [] k = JNull"
  by (simp add: val_def get_or_def)

lemma val_Cons: "val (kv # kvs) k = (if fst kv = k then snd kv else val kvs k)"
  by (cases kv) (simp add: val_def get_or_def)

lemma field_JObj: "field k (JObj d) a = KV k (Inr (J (val d a)))"
  by (simp add: field_def)

lemma get_count_data_iff:
  "get_count_data x y n = Inr d \<longleftrightarrow>
   (\<exists>p e. x = JObj p \<and> y = JObj e \<and> has_obj e ''count'' \<and>
      (if n = 0
       then d = count_items
                  [(''strikes'', JInt 0), (''balls'', JInt 0),
                   (''outs'', val (child e ''count'') ''outs'')]
                  (child e ''count'')
       else \<exists>prev. py_index (get_or p ''playEvents'' (JArr [])) (int n - 1) = Inr (JObj prev) \<and>
              has_obj prev ''count'' \<and>
              d = count_items (child prev ''count'') (child e ''count'')))"
proof (cases "\<exists>p e. x = JObj p \<and> y = JObj e \<and> has_obj e ''count''")
  case True
  then obtain p e where xy: "x = JObj p" "y = JObj e" and c: "has_obj e ''count''"
    by blast
  show ?thesis
  proof (cases "n = 0")
    case True
    then show ?thesis
      using xy c
      by (auto simp: get_count_data_def count_items_def has_obj_get_or field_JObj
            val_Nil val_Cons)
  next
    case False
    then show ?thesis
      using xy c
      by (auto simp: get_count_data_def count_items_def has_obj_get_or entry_Inr
            dict_get_eq_Inr get_or_empty_obj get_or_empty_obj_sym)
  qed
next
  case False
  then have "get_count_data x y n \<noteq> Inr d"
    by (auto simp: get_count_data_def dict_get_eq_Inr entry_Inr get_or_empty_obj
          get_or_empty_obj_sym)
  with False show ?thesis by blast
qed


lemma setitem_fresh: "k \<notin> set (map fst d) \<Longrightarrow> setitem d k v = d @ [(k, v)]"
  by (induction d) auto

lemma update_fresh: "distinct (map fst (d @ e)) \<Longrightarrow> update d e = d @ e"
proof (induction e arbitrary: d)
  case Nil
  then show ?case by simp
next
  case (Cons kv e)
  have "setitem d (fst kv) (snd kv) = d @ [kv]"
    using Cons.prems by (simp add: setitem_fresh)
  moreover have "update (d @ [kv]) e = (d @ [kv]) @ e"
    using Cons.prems by (intro Cons.IH) auto
  ultimately show ?case by simp
qed

lemma dict_display_items:
  "items_of es = Inr items \<Longrightarrow> distinct (map fst (acc @ items)) \<Longrightarrow>
   dict_display acc es = Inr (acc @ items)"
proof (induction acc es arbitrary: items rule: dict_display.induct)
  case (1 acc)
  then show ?case by simp
next
  case (2 acc k e es)
  from "2.prems"(1) obtain v r where e: "e = Inr v" and r: "items_of es = Inr r"
    and items: "items = (k, v) # r"
    by auto
  have s: "setitem acc k v = acc @ [(k, v)]"
    using "2.prems"(2) items by (simp add: setitem_fresh)
  have "dict_display (setitem acc k v) es = Inr (setitem acc k v @ r)"
    using "2.prems"(2) items s by (intro "2.IH" [OF r]) simp
  then show ?case using e s items by simp
next
  case (3 acc e es)
  from "3.prems"(1) obtain d r where e: "e = Inr d" and r: "items_of es = Inr r"
    and items: "items = d @ r"
    by auto
  have s: "update acc d = acc @ d"
    using "3.prems"(2) items by (intro update_fresh) auto
  have "dict_display (update acc d) es = Inr (update acc d @ r)"
    using "3.prems"(2) items s by (intro "3.IH" [OF r]) simp
  then show ?case using e s items by simp
qed

lemma dict_display_Inr_items:
  "dict_display acc es = Inr r \<Longrightarrow> \<exists>items. items_of es = Inr items"
  by (induction acc es rule: dict_display.induct) auto

lemma dict_display_iff_items:
  assumes "\<And>items. items_of es = Inr items \<Longrightarrow> distinct (map fst items)"
  shows "dict_display [] es = Inr r \<longleftrightarrow> items_of es = Inr r"
proof
  assume d: "dict_display [] es = Inr r"
  then obtain items where i: "items_of es = Inr items"
    using dict_display_Inr_items by blast
  with assms have "dict_display [] es = Inr ([] @ items)"
    by (intro dict_display_items) auto
  with d i show "items_of es = Inr r" by simp
next
  assume i: "items_of es = Inr r"
  with assms have "dict_display [] es = Inr ([] @ r)"
    by (intro dict_display_items) auto
  then show "dict_display [] es = Inr r" by simp
qed

lemma items_field:
  "items_of (field k x a # es) = Inr r \<longleftrightarrow>
   (\<exists>d r'. x = JObj d \<and> items_of es = Inr r' \<and> r = (k, J (val d a)) # r')"
  unfolding field_def by (auto simp: get_eq_Inr)

lemma items_field2:
  "items_of (field2 k x a b # es) = Inr r \<longleftrightarrow>
   (\<exists>d r'. x = JObj d \<and> has_obj d a \<and> items_of es = Inr r' \<and>
      r = (k, J (val (child d a) b)) # r')"
  unfolding field2_def by (cases x) (auto simp: get_eq_Inr get_or_empty_obj)

lemma items_code_flag:
  "items_of (code_flag k details codes # es) = Inr r \<longleftrightarrow>
   (\<exists>d r'. details = JObj d \<and> items_of es = Inr r' \<and>
      r = (k, if truthy (val d ''code'')
              then J (JBool (in_str_list (val d ''code'') codes)) else NaN) # r')"
proof (cases "\<exists>d. details = JObj d")
  case True
  then obtain d where "details = JObj d" by blast
  then show ?thesis by (auto simp: code_flag_JObj)
next
  case False
  then show ?thesis by (simp add: code_flag_not_obj)
qed

lemma items_nan_field:
  "items_of (nan_field k # es) = Inr r \<longleftrightarrow> (\<exists>r'. items_of es = Inr r' \<and> r = (k, NaN) # r')"
  by (auto simp: nan_field_def)

lemmas items_entry = items_field items_field2 items_code_flag items_nan_field

lemma keys_count:
  "get_count_data x y n = Inr d \<Longrightarrow>
   map fst d = [''strikes'', ''balls'', ''outs'', ''strikes_after'', ''balls_after'',
     ''outs_after'']"
  by (auto simp: get_count_data_iff count_items_def split: if_splits)

lemma keys_ab:
  "get_ab_result x n l = Inr d \<Longrightarrow>
   map fst d = [''type_ab'', ''event'', ''event_type'', ''rbi'', ''away_score'',
     ''home_score'', ''is_out'']"
  by (auto simp: get_ab_result_iff result_items_def nan_result_items_def split: if_splits)

lemma dict_display_items0:
  "items_of es = Inr items \<Longrightarrow> distinct (map fst items) \<Longrightarrow> dict_display [] es = Inr items"
  using dict_display_items [of es items "[]"] by simp

lemma dict_display_Inr_items0:
  assumes "dict_display [] es = Inr r"
  shows "\<exists>items. items_of es = Inr items \<and> (distinct (map fst items) \<longrightarrow> r = items)"
proof -
  from assms obtain items where i: "items_of es = Inr items"
    using dict_display_Inr_items by blast
  then have "distinct (map fst items) \<longrightarrow> dict_display [] es = Inr items"
    by (simp add: dict_display_items0)
  with assms i show ?thesis by auto
qed

lemma event_record_keys:
  assumes "map fst cnt = [''strikes'', ''balls'', ''outs'', ''strikes_after'', ''balls_after'',
     ''outs_after'']"
    and "map fst ab = [''type_ab'', ''event'', ''event_type'', ''rbi'', ''away_score'',
     ''home_score'', ''is_out'']"
  shows "map fst (event_record p e cnt ab) =
    [''batter_id'', ''batter_name'', ''batter_hand'', ''pitcher_id'', ''pitcher_name'',
     ''pitcher_hand'', ''batter_team'', ''batter_team_id'', ''pitcher_team'',
     ''pitcher_team_id'', ''strikes'', ''balls'', ''outs'', ''strikes_after'', ''balls_after'',
     ''outs_after'', ''play_description'', ''play_code'', ''in_play'', ''is_strike'',
     ''is_swing'', ''is_whiff'', ''is_ball'', ''is_review'', ''pitch_type'',
     ''pitch_description'', ''start_speed'', ''end_speed'', ''sz_top'', ''sz_bot'', ''x'', ''y'',
     ''ax'', ''ay'', ''az'', ''pfxx'', ''pfxz'', ''px'', ''pz'', ''vx0'', ''vy0'', ''vz0'', ''x0'',
     ''y0'', ''z0'', ''zone'', ''type_confidence'', ''plate_time'', ''extension'', ''spin_rate'',
     ''spin_direction'', ''vb'', ''ivb'', ''hb'', ''launch_speed'', ''launch_angle'',
     ''launch_distance'', ''launch_location'', ''trajectory'', ''hardness'', ''hit_x'', ''hit_y'',
     ''index_play'', ''play_id'', ''start_time'', ''end_time'', ''is_pitch'', ''type_type'',
     ''type_ab'', ''event'', ''event_type'', ''rbi'', ''away_score'', ''home_score'', ''is_out'']"
  using assms
  by (simp add: event_record_def matchup_items_def team_items_def details_items_def
        pitch_items_def hit_items_def own_items_def)

lemma event_record_distinct:
  assumes "map fst cnt = [''strikes'', ''balls'', ''outs'', ''strikes_after'', ''balls_after'',
     ''outs_after'']"
    and "map fst ab = [''type_ab'', ''event'', ''event_type'', ''rbi'', ''away_score'',
     ''home_score'', ''is_out'']"
  shows "distinct (map fst (event_record p e cnt ab))"
  by (simp add: event_record_keys [OF assms])

lemma event_items_of:
  "items_of
     [field2 ''batter_id'' (JObj m) ''batter'' ''id'',
      field2 ''batter_name'' (JObj m) ''batter'' ''fullName'',
      field2 ''batter_hand'' (JObj m) ''batSide'' ''code'',
      field2 ''pitcher_id'' (JObj m) ''pitcher'' ''id'',
      field2 ''pitcher_name'' (JObj m) ''pitcher'' ''fullName'',
      field2 ''pitcher_hand'' (JObj m) ''pitchHand'' ''code'',
      Spread team, Spread cnt,
      field ''play_description'' (JObj d) ''description'',
      field ''play_code'' (JObj d) ''code'',
      field ''in_play'' (JObj d) ''isInPlay'',
      field ''is_strike'' (JObj d) ''isStrike'',
      code_flag ''is_swing'' (JObj d) swing_list,
      code_flag ''is_whiff'' (JObj d) whiff_list,
      field ''is_ball'' (JObj d) ''isBall'',
      field ''is_review'' (JObj d) ''hasReview'',
      field2 ''pitch_type'' (JObj d) ''type'' ''code'',
      field2 ''pitch_description'' (JObj d) ''type'' ''description'',
      Spread pitch, Spread hit,
      field ''index_play'' (JObj e) ''index'',
      field ''play_id'' (JObj e) ''playId'',
      field ''start_time'' (JObj e) ''startTime'',
      field ''end_time'' (JObj e) ''endTime'',
      field ''is_pitch'' (JObj e) ''isPitch'',
      field ''type_type'' (JObj e) ''type'',
      Spread ab] = Inr r \<longleftrightarrow>
   (\<exists>t c p h a. team = Inr t \<and> cnt = Inr c \<and> pitch = Inr p \<and> hit = Inr h \<and> ab = Inr a \<and>
      has_obj m ''batter'' \<and> has_obj m ''batSide'' \<and> has_obj m ''pitcher'' \<and>
      has_obj m ''pitchHand'' \<and> has_obj d ''type'' \<and>
      r = matchup_items m @ t @ c @ details_items d @ p @ h @ own_items e @ a)"
  by (auto simp: items_entry matchup_items_def details_items_def own_items_def)


lemma extract_event_data_Inr:
  assumes "extract_event_data x y n pe = Inr r"
  shows "\<exists>p e cnt l ab. x = JObj p \<and> y = JObj e \<and> event_shape p e \<and>
      get_count_data x y n = Inr cnt \<and>
      py_len pe = Inr l \<and> get_ab_result x (int n) (l - 1) = Inr ab \<and>
      r = event_record p e cnt ab"
proof -
  from assms obtain p e where xy: "x = JObj p" "y = JObj e"
    unfolding extract_event_data_def
    by (auto simp: dict_get_eq_Inr get_count_data_iff
          dest!: dict_display_Inr_items0 simp: items_entry)
  from assms have "dict_display []
     [field2 ''batter_id'' (get_or p ''matchup'' empty_dict) ''batter'' ''id'',
      field2 ''batter_name'' (get_or p ''matchup'' empty_dict) ''batter'' ''fullName'',
      field2 ''batter_hand'' (get_or p ''matchup'' empty_dict) ''batSide'' ''code'',
      field2 ''pitcher_id'' (get_or p ''matchup'' empty_dict) ''pitcher'' ''id'',
      field2 ''pitcher_name'' (get_or p ''matchup'' empty_dict) ''pitcher'' ''fullName'',
      field2 ''pitcher_hand'' (get_or p ''matchup'' empty_dict) ''pitchHand'' ''code'',
      Spread (get_team_data (get_or p ''about'' empty_dict) x),
      Spread (get_count_data x y n),
      field ''play_description'' (get_or e ''details'' empty_dict) ''description'',
      field ''play_code'' (get_or e ''details'' empty_dict) ''code'',
      field ''in_play'' (get_or e ''details'' empty_dict) ''isInPlay'',
      field ''is_strike'' (get_or e ''details'' empty_dict) ''isStrike'',
      code_flag ''is_swing'' (get_or e ''details'' empty_dict) swing_list,
      code_flag ''is_whiff'' (get_or e ''details'' empty_dict) whiff_list,
      field ''is_ball'' (get_or e ''details'' empty_dict) ''isBall'',
      field ''is_review'' (get_or e ''details'' empty_dict) ''hasReview'',
      field2 ''pitch_type'' (get_or e ''details'' empty_dict) ''type'' ''code'',
      field2 ''pitch_description'' (get_or e ''details'' empty_dict) ''type'' ''description'',
      Spread (rbind (Inr (get_or e ''pitchData'' empty_dict)) get_pitch_data),
      Spread (rbind (Inr (get_or e ''hitData'' empty_dict)) get_hit_data),
      field ''index_play'' y ''index'',
      field ''play_id'' y ''playId'',
      field ''start_time'' y ''startTime'',
      field ''end_time'' y ''endTime'',
      field ''is_pitch'' y ''isPitch'',
      field ''type_type'' y ''type'',
      Spread (rbind (py_len pe) (\<lambda>l. get_ab_result x (int n) (l - 1)))] = Inr r"
    (is "dict_display [] ?es = _")
    unfolding extract_event_data_def xy by simp
  then obtain items where i: "items_of ?es = Inr items"
    and ri: "distinct (map fst items) \<longrightarrow> r = items"
    using dict_display_Inr_items0 by blast
  from i obtain m d where m: "get_or p ''matchup'' empty_dict = JObj m"
    and d: "get_or e ''details'' empty_dict = JObj d"
    by (auto simp: items_entry)
  from i obtain t c pt h l a where
    t: "get_team_data (get_or p ''about'' empty_dict) x = Inr t" and
    c: "get_count_data x y n = Inr c" and
    pt: "get_pitch_data (get_or e ''pitchData'' empty_dict) = Inr pt" and
    h: "get_hit_data (get_or e ''hitData'' empty_dict) = Inr h" and
    l: "py_len pe = Inr l" and
    a: "get_ab_result x (int n) (l - 1) = Inr a" and
    sh: "has_obj m ''batter''" "has_obj m ''batSide''" "has_obj m ''pitcher''"
       "has_obj m ''pitchHand''" "has_obj d ''type''" and
    items: "items = matchup_items m @ t @ c @ details_items d @ pt @ h @ own_items e @ a"
    unfolding m d xy event_items_of by auto
  from m d have md: "has_obj p ''matchup''" "m = child p ''matchup''"
       "has_obj e ''details''" "d = child e ''details''"
    by (simp_all add: get_or_empty_obj)
  from t have ts: "has_obj p ''about''" "has_obj p ''game''"
      "has_obj (child p ''game'') ''gameData''"
      "has_obj (child (child p ''game'') ''gameData'') ''teams''"
      "has_obj (roster p) ''away''" "has_obj (roster p) ''home''"
      "t = team_items (child p ''about'') p"
    unfolding xy by (auto simp: get_team_data_iff get_or_empty_obj)
  from pt have ps: "has_obj e ''pitchData''" "has_obj (child e ''pitchData'') ''coordinates''"
      "has_obj (child e ''pitchData'') ''breaks''" "pt = pitch_items (child e ''pitchData'')"
    by (auto simp: get_pitch_data_iff get_or_empty_obj)
  from h have hs: "has_obj e ''hitData''" "has_obj (child e ''hitData'') ''coordinates''"
      "h = hit_items (child e ''hitData'')"
    by (auto simp: get_hit_data_iff get_or_empty_obj)
  have rec: "items = event_record p e c a"
    unfolding items event_record_def using md ts ps hs by simp
  have "distinct (map fst items)"
    unfolding rec by (rule event_record_distinct [OF keys_count [OF c] keys_ab [OF a]])
  with ri rec have "r = event_record p e c a" by simp
  moreover have "event_shape p e"
    unfolding event_shape_def using md sh ts ps hs by simp
  ultimately show ?thesis using xy c l a by blast
qed

lemma play_event_body_pitch:
  assumes "is_pitch_or_call event = Inr True"
  shows "play_event_body play game_data play_events n event =
     rbind (extract_event_data play event n play_events) (\<lambda>event_data. Inr (Some event_data))"
  using assms by (simp add: play_event_body_def)

lemma play_event_body_pitch_Some:
  assumes "is_pitch_or_call event = Inr True"
    and "play_event_body play game_data play_events n event = Inr (Some r)"
  shows "extract_event_data play event n play_events = Inr r"
  using assms by (auto simp: play_event_body_def)

lemma map_of_event_record_count:
  assumes "map fst cnt = [''strikes'', ''balls'', ''outs'', ''strikes_after'', ''balls_after'',
     ''outs_after'']"
    and "k \<in> set [''strikes'', ''balls'', ''outs'', ''strikes_after'', ''balls_after'',
     ''outs_after'']"
  shows "map_of (event_record p e cnt ab) k = map_of cnt k"
proof -
  have in_c: "k \<in> fst ` set cnt"
    using assms by (metis set_map)
  then obtain v where v: "map_of cnt k = Some v"
    by (metis domD dom_map_of_conv_image_fst)
  have out: "map_of (matchup_items (child p ''matchup'')) k = None"
       "map_of (team_items (child p ''about'') p) k = None"
    using assms(2) by (auto simp: matchup_items_def team_items_def)
  show ?thesis
    unfolding event_record_def using v out
    by (simp add: map_add_def)
qed


lemma map_of_append_None: "map_of xs k = None \<Longrightarrow> map_of (xs @ ys) k = map_of ys k"
  by (simp add: map_add_def)

lemma map_of_append_Some: "map_of xs k = Some v \<Longrightarrow> map_of (xs @ ys) k = Some v"
  by (simp add: map_add_def)

lemma map_of_event_record_ab:
  assumes "map fst cnt = [''strikes'', ''balls'', ''outs'', ''strikes_after'', ''balls_after'',
     ''outs_after'']"
    and "k \<in> set [''type_ab'', ''event'', ''event_type'', ''rbi'', ''away_score'',
     ''home_score'', ''is_out'']"
  shows "map_of (event_record p e cnt ab) k = map_of ab k"
proof -
  have k: "k = ''type_ab'' \<or> k = ''event'' \<or> k = ''event_type'' \<or> k = ''rbi'' \<or>
      k = ''away_score'' \<or> k = ''home_score'' \<or> k = ''is_out''"
    using assms(2) by simp
  have "k \<notin> set (map fst cnt)"
    using k unfolding assms(1) by auto
  then have c: "map_of cnt k = None"
    by (simp add: map_of_eq_None_iff)
  have out: "map_of (matchup_items (child p ''matchup'')) k = None"
       "map_of (team_items (child p ''about'') p) k = None"
       "map_of (details_items (child e ''details'')) k = None"
       "map_of (pitch_items (child e ''pitchData'')) k = None"
       "map_of (hit_items (child e ''hitData'')) k = None"
       "map_of (own_items e) k = None"
    using k
    by (elim disjE;
        simp add: matchup_items_def team_items_def details_items_def pitch_items_def
          hit_items_def own_items_def)+
  show ?thesis
    unfolding event_record_def using c out
    by (simp add: map_of_append_None del: map_of_append)
qed


lemma map_of_event_record_flags:
  assumes "map fst cnt = [''strikes'', ''balls'', ''outs'', ''strikes_after'', ''balls_after'',
     ''outs_after'']"
  shows "map_of (event_record p e cnt ab) ''is_swing'' =
           Some (if truthy (val (child e ''details'') ''code'')
                 then J (JBool (in_str_list (val (child e ''details'') ''code'') swing_list))
                 else NaN)"
    and "map_of (event_record p e cnt ab) ''is_whiff'' =
           Some (if truthy (val (child e ''details'') ''code'')
                 then J (JBool (in_str_list (val (child e ''details'') ''code'') whiff_list))
                 else NaN)"
proof -
  have c: "map_of cnt ''is_swing'' = None" "map_of cnt ''is_whiff'' = None"
    by (simp_all add: map_of_eq_None_iff flip: set_map add: assms)
  have out: "map_of (matchup_items (child p ''matchup'')) ''is_swing'' = None"
       "map_of (team_items (child p ''about'') p) ''is_swing'' = None"
       "map_of (matchup_items (child p ''matchup'')) ''is_whiff'' = None"
       "map_of (team_items (child p ''about'') p) ''is_whiff'' = None"
    by (simp_all add: matchup_items_def team_items_def)
  have d: "map_of (details_items d) ''is_swing'' =
           Some (if truthy (val d ''code'')
                 then J (JBool (in_str_list (val d ''code'') swing_list)) else NaN)"
      "map_of (details_items d) ''is_whiff'' =
           Some (if truthy (val d ''code'')
                 then J (JBool (in_str_list (val d ''code'') whiff_list)) else NaN)" for d
    by (simp_all add: details_items_def)
  show "map_of (event_record p e cnt ab) ''is_swing'' =
           Some (if truthy (val (child e ''details'') ''code'')
                 then J (JBool (in_str_list (val (child e ''details'') ''code'') swing_list))
                 else NaN)"
    unfolding event_record_def using c out
    by (simp add: map_of_append_None map_of_append_Some d del: map_of_append)
  show "map_of (event_record p e cnt ab) ''is_whiff'' =
           Some (if truthy (val (child e ''details'') ''code'')
                 then J (JBool (in_str_list (val (child e ''details'') ''code'') whiff_list))
                 else NaN)"
    unfolding event_record_def using c out
    by (simp add: map_of_append_None map_of_append_Some d del: map_of_append)
qed

lemma extract_event_data_eval:
  assumes "event_shape p e"
    and "get_count_data (JObj p) (JObj e) n = Inr cnt"
    and "py_len pe = Inr l"
    and "get_ab_result (JObj p) (int n) (l - 1) = Inr ab"
  shows "extract_event_data (JObj p) (JObj e) n pe = Inr (event_record p e cnt ab)"
proof -
  from assms(1) have h: "has_obj p ''matchup''" "has_obj p ''about''" "has_obj e ''details''"
      "has_obj e ''pitchData''" "has_obj e ''hitData''"
    by (simp_all add: event_shape_def)
  have t: "get_team_data (JObj (child p ''about'')) (JObj p) = Inr (team_items (child p ''about'') p)"
    using assms(1) by (simp add: get_team_data_iff event_shape_def)
  have pt: "get_pitch_data (JObj (child e ''pitchData'')) = Inr (pitch_items (child e ''pitchData''))"
    using assms(1) by (simp add: get_pitch_data_iff event_shape_def)
  have ht: "get_hit_data (JObj (child e ''hitData'')) = Inr (hit_items (child e ''hitData''))"
    using assms(1) by (simp add: get_hit_data_iff event_shape_def)
  show ?thesis
    unfolding extract_event_data_def
    apply (simp add: has_obj_get_or h)
    apply (rule dict_display_items0)
     apply (simp add: event_items_of t pt ht assms event_record_def)
     apply (use assms(1) in \<open>simp add: event_shape_def\<close>)
    apply (rule event_record_distinct [OF keys_count [OF assms(2)] keys_ab [OF assms(4)]])
    done
qed

lemmas ex_defs = ex_pitch_b_def ex_pickoff_def ex_pitch_x_def ex_events_def ex_play_def

lemmas eval_defs = get_or_def val_def has_obj_def child_def empty_dict_def roster_def
  seq_index_def

lemma play_event_body_pitch_eval:
  assumes "is_pitch_or_call (JObj e) = Inr True"
    and "event_shape p e"
    and "get_count_data (JObj p) (JObj e) n = Inr cnt"
    and "py_len pe = Inr l"
    and "get_ab_result (JObj p) (int n) (l - 1) = Inr ab"
  shows "play_event_body (JObj p) game_data pe n (JObj e) = Inr (Some (event_record p e cnt ab))"
  using assms(1) extract_event_data_eval [OF assms(2-5)]
  by (simp add: play_event_body_def)

lemma ex_is_pitch_or_call:
  "is_pitch_or_call ex_pitch_b = Inr True"
  "is_pitch_or_call ex_pickoff = Inr False"
  "is_pitch_or_call ex_pitch_x = Inr True"
  by (simp_all add: is_pitch_or_call_def ex_defs eval_defs)

lemma ex_body_b: "\<exists>r. play_event_body ex_play ex_doc ex_events 0 ex_pitch_b = Inr (Some r)"
proof -
  have P: "ex_play = JObj (obj_items ex_play)" and E: "ex_pitch_b = JObj (obj_items ex_pitch_b)"
    by (simp_all add: ex_defs obj_items_def)
  have shape: "event_shape (obj_items ex_play) (obj_items ex_pitch_b)"
    by (simp add: event_shape_def obj_items_def ex_defs eval_defs)
  obtain c where c: "get_count_data ex_play ex_pitch_b 0 = Inr c"
    by (simp add: get_count_data_iff ex_defs eval_defs)
  obtain a where a: "get_ab_result ex_play (int 0) (3 - 1) = Inr a"
    by (simp add: get_ab_result_iff ex_defs eval_defs)
  have "play_event_body (JObj (obj_items ex_play)) ex_doc ex_events 0
          (JObj (obj_items ex_pitch_b))
      = Inr (Some (event_record (obj_items ex_play) (obj_items ex_pitch_b) c a))"
    by (rule play_event_body_pitch_eval [OF _ shape, where l = 3])
       (use c a ex_is_pitch_or_call in \<open>simp_all add: ex_events_def flip: P E\<close>)
  then show ?thesis by (simp flip: P E)
qed

lemma ex_body_x: "\<exists>r. play_event_body ex_play ex_doc ex_events 2 ex_pitch_x = Inr (Some r)"
proof -
  have P: "ex_play = JObj (obj_items ex_play)" and E: "ex_pitch_x = JObj (obj_items ex_pitch_x)"
    by (simp_all add: ex_defs obj_items_def)
  have shape: "event_shape (obj_items ex_play) (obj_items ex_pitch_x)"
    by (simp add: event_shape_def obj_items_def ex_defs eval_defs)
  obtain c where c: "get_count_data ex_play ex_pitch_x 2 = Inr c"
    by (simp add: get_count_data_iff ex_defs eval_defs)
  obtain a where a: "get_ab_result ex_play (int 2) (3 - 1) = Inr a"
    by (simp add: get_ab_result_iff ex_defs eval_defs)
  have "play_event_body (JObj (obj_items ex_play)) ex_doc ex_events 2
          (JObj (obj_items ex_pitch_x))
      = Inr (Some (event_record (obj_items ex_play) (obj_items ex_pitch_x) c a))"
    by (rule play_event_body_pitch_eval [OF _ shape, where l = 3])
       (use c a ex_is_pitch_or_call in \<open>simp_all add: ex_events_def flip: P E\<close>)
  then show ?thesis by (simp flip: P E)
qed

lemma ex_body_pickoff: "play_event_body ex_play ex_doc ex_events 1 ex_pickoff = Inr None"
proof -
  have "has_four_balls ex_pickoff = Inr False"
    by (simp add: has_four_balls_def ex_pickoff_def eval_defs)
  then show ?thesis
    by (simp add: play_event_body_def ex_is_pitch_or_call)
qed

lemma walk_record_keys:
  "map fst (walk_record p e) =
    [''batter_id'', ''batter_name'', ''batter_hand'', ''pitcher_id'', ''pitcher_name'',
     ''pitcher_hand'', ''batter_team'', ''batter_team_id'', ''pitcher_team'',
     ''pitcher_team_id'', ''strikes'', ''balls'', ''outs'', ''strikes_after'', ''balls_after'',
     ''outs_after'', ''index_play'', ''play_id'', ''start_time'', ''end_time'', ''is_pitch'',
     ''type_type'', ''event'', ''event_type'', ''play_description'', ''play_code'', ''in_play'',
     ''is_strike'', ''is_swing'', ''is_whiff'', ''is_ball'', ''is_review'', ''pitch_type'',
     ''pitch_description'', ''ab_number'', ''start_speed'', ''end_speed'', ''sz_top'',
     ''sz_bot'', ''x'', ''y'', ''ax'', ''ay'', ''az'', ''pfxx'', ''pfxz'', ''px'', ''pz'', ''vx0'',
     ''vy0'', ''vz0'', ''x0'', ''y0'', ''z0'', ''zone'', ''type_confidence'', ''plate_time'',
     ''extension'', ''spin_rate'', ''spin_direction'', ''vb'', ''ivb'', ''hb'', ''launch_speed'',
     ''launch_angle'', ''launch_distance'', ''launch_location'', ''trajectory'', ''hardness'',
     ''hit_x'', ''hit_y'', ''type_ab'', ''rbi'', ''away_score'', ''home_score'', ''is_out'']"
  by (simp add: walk_record_def walk_base_def matchup_items_def team_items_def count_items_def
        own_items_def remaining_fields_def)

lemma walk_record_distinct: "distinct (map fst (walk_record p e))"
  by (simp add: walk_record_keys)

lemma walk_base_distinct: "distinct (map fst (walk_base p e))"
  using walk_record_distinct [of p e] by (simp add: walk_record_def)

lemma walk_items_of:
  "items_of
     [field2 ''batter_id'' (JObj m) ''batter'' ''id'',
      field2 ''batter_name'' (JObj m) ''batter'' ''fullName'',
      field2 ''batter_hand'' (JObj m) ''batSide'' ''code'',
      field2 ''pitcher_id'' (JObj m) ''pitcher'' ''id'',
      field2 ''pitcher_name'' (JObj m) ''pitcher'' ''fullName'',
      field2 ''pitcher_hand'' (JObj m) ''pitchHand'' ''code'',
      Spread team,
      Spread (dict_display []
                [field ''strikes'' (JObj c) ''strikes'',
                 field ''balls'' (JObj c) ''balls'',
                 field ''outs'' (JObj c) ''outs'']),
      Spread (dict_display []
                [field ''strikes_after'' (JObj c) ''strikes'',
                 field ''balls_after'' (JObj c) ''balls'',
                 field ''outs_after'' (JObj c) ''outs'']),
      field ''index_play'' (JObj e) ''index'',
      field ''play_id'' (JObj e) ''playId'',
      field ''start_time'' (JObj e) ''startTime'',
      field ''end_time'' (JObj e) ''endTime'',
      field ''is_pitch'' (JObj e) ''isPitch'',
      field ''type_type'' (JObj e) ''type'',
      field2 ''event'' (JObj p) ''result'' ''event'',
      field2 ''event_type'' (JObj p) ''result'' ''eventType''] = Inr r \<longleftrightarrow>
   (\<exists>t. team = Inr t \<and>
      has_obj m ''batter'' \<and> has_obj m ''batSide'' \<and> has_obj m ''pitcher'' \<and>
      has_obj m ''pitchHand'' \<and> has_obj p ''result'' \<and>
      r = matchup_items m @ t @ count_items c c @ own_items e @
          [(''event'', J (val (child p ''result'') ''event'')),
           (''event_type'', J (val (child p ''result'') ''eventType''))])"
  by (auto simp: items_entry field_JObj matchup_items_def count_items_def own_items_def)

lemma update_nans:
  "update [] (map (\<lambda>f. (f, NaN)) remaining_fields) = map (\<lambda>f. (f, NaN)) remaining_fields"
proof -
  have "distinct (map fst ([] @ map (\<lambda>f. (f, NaN)) remaining_fields))"
    by (simp add: remaining_fields_def)
  from update_fresh [OF this] show ?thesis by simp
qed

lemma update_walk_base:
  "update (walk_base p e) (update [] (map (\<lambda>f. (f, NaN)) remaining_fields)) = walk_record p e"
  unfolding update_nans walk_record_def
  by (rule update_fresh) (use walk_record_distinct [of p e] in \<open>simp add: walk_record_def\<close>)

lemma extract_walk_data_iff:
  "extract_walk_data x y game_data = Inr r \<longleftrightarrow>
   (\<exists>p e. x = JObj p \<and> y = JObj e \<and> walk_shape p e \<and> r = walk_record p e)"
proof (cases "\<exists>p e. x = JObj p \<and> y = JObj e \<and> has_obj p ''matchup'' \<and> has_obj p ''about''
     \<and> has_obj e ''count''")
  case True
  then obtain p e where xy: "x = JObj p" "y = JObj e"
    and h: "has_obj p ''matchup''" "has_obj p ''about''" "has_obj e ''count''"
    by blast
  let ?es = "[field2 ''batter_id'' (JObj (child p ''matchup'')) ''batter'' ''id'',
      field2 ''batter_name'' (JObj (child p ''matchup'')) ''batter'' ''fullName'',
      field2 ''batter_hand'' (JObj (child p ''matchup'')) ''batSide'' ''code'',
      field2 ''pitcher_id'' (JObj (child p ''matchup'')) ''pitcher'' ''id'',
      field2 ''pitcher_name'' (JObj (child p ''matchup'')) ''pitcher'' ''fullName'',
      field2 ''pitcher_hand'' (JObj (child p ''matchup'')) ''pitchHand'' ''code'',
      Spread (get_team_data (JObj (child p ''about'')) (JObj p)),
      Spread (dict_display []
                [field ''strikes'' (JObj (child e ''count'')) ''strikes'',
                 field ''balls'' (JObj (child e ''count'')) ''balls'',
                 field ''outs'' (JObj (child e ''count'')) ''outs'']),
      Spread (dict_display []
                [field ''strikes_after'' (JObj (child e ''count'')) ''strikes'',
                 field ''balls_after'' (JObj (child e ''count'')) ''balls'',
                 field ''outs_after'' (JObj (child e ''count'')) ''outs'']),
      field ''index_play'' (JObj e) ''index'',
      field ''play_id'' (JObj e) ''playId'',
      field ''start_time'' (JObj e) ''startTime'',
      field ''end_time'' (JObj e) ''endTime'',
      field ''is_pitch'' (JObj e) ''isPitch'',
      field ''type_type'' (JObj e) ''type'',
      field2 ''event'' (JObj p) ''result'' ''event'',
      field2 ''event_type'' (JObj p) ''result'' ''eventType'']"
  have w: "extract_walk_data x y game_data =
      rbind (dict_display [] ?es) (\<lambda>base_data.
        Inr (update base_data (update [] (map (\<lambda>f. (f, NaN)) remaining_fields))))"
    unfolding extract_walk_data_def xy by (simp add: has_obj_get_or h)
  have items: "items_of ?es = Inr b \<longleftrightarrow> walk_shape p e \<and> b = walk_base p e" for b
    unfolding walk_items_of using h
    by (auto simp: get_team_data_iff walk_shape_def walk_base_def)
  have base: "dict_display [] ?es = Inr b \<longleftrightarrow> walk_shape p e \<and> b = walk_base p e" for b
  proof
    assume "dict_display [] ?es = Inr b"
    then obtain i where i: "items_of ?es = Inr i" and bi: "distinct (map fst i) \<longrightarrow> b = i"
      using dict_display_Inr_items0 by blast
    with items [of i] walk_base_distinct [of p e] show "walk_shape p e \<and> b = walk_base p e"
      by simp
  next
    assume a: "walk_shape p e \<and> b = walk_base p e"
    then have "items_of ?es = Inr (walk_base p e)" using items by simp
    from dict_display_items0 [OF this walk_base_distinct] a
    show "dict_display [] ?es = Inr b" by simp
  qed
  show ?thesis
    unfolding w using xy by (auto simp: base update_walk_base)
next
  case False
  then have "extract_walk_data x y game_data \<noteq> Inr r"
    unfolding extract_walk_data_def
    by (auto simp: dict_get_eq_Inr entry_Inr get_or_empty_obj get_or_empty_obj_sym
          get_team_data_iff simp del: setitem.simps update.simps)
  with False show ?thesis by (auto simp: walk_shape_def)
qed

lemma play_event_body_walk:
  assumes "is_pitch_or_call event = Inr False" and "has_four_balls event = Inr True"
  shows "play_event_body play game_data play_events n event =
     rbind (extract_walk_data play event game_data) (\<lambda>event_data. Inr (Some event_data))"
  using assms by (simp add: play_event_body_def)

lemma play_event_body_walk_Inr:
  assumes "is_pitch_or_call event = Inr False" and "has_four_balls event = Inr True"
    and "play_event_body play game_data play_events n event = Inr res"
  shows "\<exists>p e. play = JObj p \<and> event = JObj e \<and> walk_shape p e \<and>
           res = Some (walk_record p e)"
  using assms(3) unfolding play_event_body_walk [OF assms(1,2)]
  by (auto simp: extract_walk_data_iff)

lemma map_of_nans: "map_of (map (\<lambda>f. (f, NaN)) fs) f = (if f \<in> set fs then Some NaN else None)"
  by (induction fs) auto

lemma map_of_walk_record_nan:
  assumes "f \<in> set remaining_fields"
  shows "map_of (walk_record p e) f = Some NaN"
proof -
  have "f \<notin> set (map fst (walk_base p e))"
    using walk_record_distinct [of p e] assms
    by (auto simp: walk_record_def comp_def)
  then have "map_of (walk_base p e) f = None"
    by (simp add: map_of_eq_None_iff)
  then show ?thesis
    unfolding walk_record_def using assms
    by (simp add: map_of_append_None map_of_nans del: map_of_append)
qed

lemma map_of_walk_record_base:
  assumes "map_of (walk_base p e) k = Some v"
  shows "map_of (walk_record p e) k = Some v"
  unfolding walk_record_def using assms
  by (simp add: map_of_append_Some del: map_of_append)

lemma map_of_walk_base:
  "map_of (walk_base p e) ''strikes'' = Some (J (val (child e ''count'') ''strikes''))"
  "map_of (walk_base p e) ''balls'' = Some (J (val (child e ''count'') ''balls''))"
  "map_of (walk_base p e) ''outs'' = Some (J (val (child e ''count'') ''outs''))"
  "map_of (walk_base p e) ''strikes_after'' = Some (J (val (child e ''count'') ''strikes''))"
  "map_of (walk_base p e) ''balls_after'' = Some (J (val (child e ''count'') ''balls''))"
  "map_of (walk_base p e) ''outs_after'' = Some (J (val (child e ''count'') ''outs''))"
  "map_of (walk_base p e) ''event'' = Some (J (val (child p ''result'') ''event''))"
  "map_of (walk_base p e) ''event_type'' = Some (J (val (child p ''result'') ''eventType''))"
  by (simp_all add: walk_base_def matchup_items_def team_items_def count_items_def own_items_def)

lemmas map_of_walk_record = map_of_walk_base [THEN map_of_walk_record_base]

lemma ex_walk_cls:
  "is_pitch_or_call ex_walk_event = Inr False"
  "has_four_balls ex_walk_event = Inr True"
  by (simp_all add: is_pitch_or_call_def has_four_balls_def ex_walk_event_def eval_defs)

lemma ex_walk_body:
  "play_event_body ex_walk_play ex_walk_doc pe n ex_walk_event =
     Inr (Some (walk_record (obj_items ex_walk_play) (obj_items ex_walk_event)))"
proof -
  have P: "ex_walk_play = JObj (obj_items ex_walk_play)"
    and E: "ex_walk_event = JObj (obj_items ex_walk_event)"
    by (simp_all add: ex_walk_play_def ex_walk_event_def obj_items_def)
  have "walk_shape (obj_items ex_walk_play) (obj_items ex_walk_event)"
    by (simp add: walk_shape_def obj_items_def ex_walk_play_def ex_walk_event_def eval_defs)
  then have "extract_walk_data ex_walk_play ex_walk_event ex_walk_doc =
      Inr (walk_record (obj_items ex_walk_play) (obj_items ex_walk_event))"
    unfolding extract_walk_data_iff using P E by blast
  then show ?thesis
    by (simp add: play_event_body_walk [OF ex_walk_cls])
qed

lemma ex_walk_play_data:
  "extract_play_data ex_walk_play ex_walk_doc =
     Inr [walk_record (obj_items ex_walk_play) (obj_items ex_walk_event)]"
proof -
  have "dict_get ex_walk_play ''playEvents'' (JArr []) = Inr (JArr [ex_walk_event])"
    by (simp add: ex_walk_play_def eval_defs)
  then show ?thesis
    by (simp add: extract_play_data_def ex_walk_body)
qed

lemma map_of_setitem: "map_of (setitem d k v) k' = (if k' = k then Some v else map_of d k')"
  by (induction d) auto

lemma map_of_event_record_team:
  "map_of (event_record p e cnt ab) ''batter_team'' =
     map_of (team_items (child p ''about'') p) ''batter_team''"
  "map_of (event_record p e cnt ab) ''batter_team_id'' =
     map_of (team_items (child p ''about'') p) ''batter_team_id''"
  "map_of (event_record p e cnt ab) ''pitcher_team'' =
     map_of (team_items (child p ''about'') p) ''pitcher_team''"
  "map_of (event_record p e cnt ab) ''pitcher_team_id'' =
     map_of (team_items (child p ''about'') p) ''pitcher_team_id''"
  by (simp_all add: event_record_def matchup_items_def team_items_def)

lemma map_of_event_record_ab_number:
  assumes "map fst cnt = [''strikes'', ''balls'', ''outs'', ''strikes_after'', ''balls_after'',
     ''outs_after'']"
    and "map fst ab = [''type_ab'', ''event'', ''event_type'', ''rbi'', ''away_score'',
     ''home_score'', ''is_out'']"
  shows "map_of (event_record p e cnt ab) ''ab_number'' = None"
  unfolding map_of_eq_None_iff set_map [symmetric] event_record_keys [OF assms]
  by simp

lemma pitch_body_exists:
  assumes "is_pitch_or_call (JObj e) = Inr True"
    and "event_shape p e"
    and "get_count_data (JObj p) (JObj e) n = Inr c0"
    and "py_len pe = Inr l"
    and "get_ab_result (JObj p) (int n) (l - 1) = Inr a0"
  shows "\<exists>c a. play_event_body (JObj p) game_data pe n (JObj e)
             = Inr (Some (event_record p e c a)) \<and>
           map fst c = [''strikes'', ''balls'', ''outs'', ''strikes_after'', ''balls_after'',
             ''outs_after''] \<and>
           map fst a = [''type_ab'', ''event'', ''event_type'', ''rbi'', ''away_score'',
             ''home_score'', ''is_out'']"
  by (rule exI [of _ c0], rule exI [of _ a0])
     (simp add: play_event_body_pitch_eval [OF assms] keys_count [OF assms(3)]
        keys_ab [OF assms(5)])

lemma ex_mixed_body_b:
  "\<exists>c a. play_event_body ex_mixed_play ex_mixed_doc (JArr [ex_pitch_b, ex_walk_event]) 0 ex_pitch_b
             = Inr (Some (event_record (obj_items ex_mixed_play) (obj_items ex_pitch_b) c a)) \<and>
           map fst c = [''strikes'', ''balls'', ''outs'', ''strikes_after'', ''balls_after'',
             ''outs_after''] \<and>
           map fst a = [''type_ab'', ''event'', ''event_type'', ''rbi'', ''away_score'',
             ''home_score'', ''is_out'']"
proof -
  have P: "ex_mixed_play = JObj (obj_items ex_mixed_play)"
    and E: "ex_pitch_b = JObj (obj_items ex_pitch_b)"
    by (simp_all add: ex_mixed_play_def ex_pitch_b_def obj_items_def)
  have shape: "event_shape (obj_items ex_mixed_play) (obj_items ex_pitch_b)"
    by (simp add: event_shape_def obj_items_def ex_mixed_play_def ex_pitch_b_def eval_defs)
  obtain c where c: "get_count_data ex_mixed_play ex_pitch_b 0 = Inr c"
    by (simp add: get_count_data_iff ex_mixed_play_def ex_pitch_b_def eval_defs)
  obtain a where a: "get_ab_result ex_mixed_play (int 0) (2 - 1) = Inr a"
    by (simp add: get_ab_result_iff ex_mixed_play_def eval_defs)
  have "\<exists>c a. play_event_body (JObj (obj_items ex_mixed_play)) ex_mixed_doc
          (JArr [ex_pitch_b, ex_walk_event]) 0 (JObj (obj_items ex_pitch_b))
             = Inr (Some (event_record (obj_items ex_mixed_play) (obj_items ex_pitch_b) c a)) \<and>
           map fst c = [''strikes'', ''balls'', ''outs'', ''strikes_after'', ''balls_after'',
             ''outs_after''] \<and>
           map fst a = [''type_ab'', ''event'', ''event_type'', ''rbi'', ''away_score'',
             ''home_score'', ''is_out'']"
    by (rule pitch_body_exists [OF _ shape, where l = 2 and ?c0.0 = c and ?a0.0 = a])
       (use c a ex_is_pitch_or_call in \<open>simp_all flip: P E\<close>)
  then show ?thesis by (simp flip: P E)
qed

lemma ex_mixed_body_walk:
  "play_event_body ex_mixed_play ex_mixed_doc pe n ex_walk_event =
     Inr (Some (walk_record (obj_items ex_mixed_play) (obj_items ex_walk_event)))"
proof -
  have P: "ex_mixed_play = JObj (obj_items ex_mixed_play)"
    and E: "ex_walk_event = JObj (obj_items ex_walk_event)"
    by (simp_all add: ex_mixed_play_def ex_walk_event_def obj_items_def)
  have "walk_shape (obj_items ex_mixed_play) (obj_items ex_walk_event)"
    by (simp add: walk_shape_def obj_items_def ex_mixed_play_def ex_walk_event_def eval_defs)
  then have "extract_walk_data ex_mixed_play ex_walk_event ex_mixed_doc =
      Inr (walk_record (obj_items ex_mixed_play) (obj_items ex_walk_event))"
    unfolding extract_walk_data_iff using P E by blast
  then show ?thesis
    by (simp add: play_event_body_walk [OF ex_walk_cls])
qed

section \<open>Claims\<close>

text \<open>
  C1. The record of a pitch or call event at index \<open>n\<close> has, as its count before the event
  (\<open>strikes\<close>, \<open>balls\<close>, \<open>outs\<close>), the count of the event at index \<open>n - 1\<close> of the play
  when \<open>n > 0\<close>, whatever that event is (it may have produced no record); when \<open>n = 0\<close>
  it has 0 strikes, 0 balls and the outs of the event itself. The count after the event
  (\<open>strikes_after\<close>, \<open>balls_after\<close>, \<open>outs_after\<close>) is the count of the event itself.
\<close>

theorem count_before_is_previous_count_after:
  assumes "is_pitch_or_call event = Inr True"
    and "play_event_body play game_data play_events n event = Inr (Some r)"
  shows "(\<exists>count s b outs.
            dict_get event ''count'' empty_dict = Inr count \<and>
            get count ''strikes'' = Inr s \<and> get count ''balls'' = Inr b \<and>
            get count ''outs'' = Inr outs \<and>
            map_of r ''strikes_after'' = Some (J s) \<and>
            map_of r ''balls_after'' = Some (J b) \<and>
            map_of r ''outs_after'' = Some (J outs) \<and>
            (n = 0 \<longrightarrow>
               map_of r ''strikes'' = Some (J (JInt 0)) \<and>
               map_of r ''balls'' = Some (J (JInt 0)) \<and>
               map_of r ''outs'' = Some (J outs))) \<and>
         (0 < n \<longrightarrow>
            (\<exists>events prev prev_count s b outs.
               dict_get play ''playEvents'' (JArr []) = Inr events \<and>
               py_index events (int n - 1) = Inr prev \<and>
               dict_get prev ''count'' empty_dict = Inr prev_count \<and>
               get prev_count ''strikes'' = Inr s \<and> get prev_count ''balls'' = Inr b \<and>
               get prev_count ''outs'' = Inr outs \<and>
               map_of r ''strikes'' = Some (J s) \<and>
               map_of r ''balls'' = Some (J b) \<and>
               map_of r ''outs'' = Some (J outs)))"
proof -
  from assms have "extract_event_data play event n play_events = Inr r"
    by (rule play_event_body_pitch_Some)
  then obtain p e cnt ab where pe: "play = JObj p" "event = JObj e"
    and cnt: "get_count_data play event n = Inr cnt"
    and r: "r = event_record p e cnt ab"
    using extract_event_data_Inr by blast
  note k = keys_count [OF cnt]
  have look: "map_of r ''strikes'' = map_of cnt ''strikes''"
      "map_of r ''balls'' = map_of cnt ''balls''"
      "map_of r ''outs'' = map_of cnt ''outs''"
      "map_of r ''strikes_after'' = map_of cnt ''strikes_after''"
      "map_of r ''balls_after'' = map_of cnt ''balls_after''"
      "map_of r ''outs_after'' = map_of cnt ''outs_after''"
    unfolding r by (simp_all add: map_of_event_record_count [OF k])
  from cnt have c: "has_obj e ''count''"
    unfolding pe by (auto simp: get_count_data_iff)
  show ?thesis
  proof (cases "n = 0")
    case True
    with cnt have "cnt = count_items
        [(''strikes'', JInt 0), (''balls'', JInt 0), (''outs'', val (child e ''count'') ''outs'')]
        (child e ''count'')"
      unfolding pe by (simp add: get_count_data_iff)
    then show ?thesis
      unfolding look using True c pe
      by (simp add: count_items_def has_obj_get_or val_Nil val_Cons)
  next
    case False
    with cnt obtain prev where
      prev: "py_index (get_or p ''playEvents'' (JArr [])) (int n - 1) = Inr (JObj prev)"
        "has_obj prev ''count''"
      and "cnt = count_items (child prev ''count'') (child e ''count'')"
      unfolding pe by (auto simp: get_count_data_iff)
    then show ?thesis
      unfolding look using False c pe
      by (simp add: count_items_def has_obj_get_or)
  qed
qed

theorem count_before_is_previous_count_after_witness:
  "is_pitch_or_call ex_pitch_x = Inr True \<and>
   play_event_body ex_play ex_doc ex_events 1 ex_pickoff = Inr None \<and>
   (\<exists>r. play_event_body ex_play ex_doc ex_events 2 ex_pitch_x = Inr (Some r) \<and>
        map_of r ''strikes'' = Some (J (JInt 0)) \<and>
        map_of r ''balls'' = Some (J (JInt 1)) \<and>
        map_of r ''outs'' = Some (J (JInt 2)))"
proof -
  note cls = ex_is_pitch_or_call(3)
  from ex_body_x obtain r where
    body: "play_event_body ex_play ex_doc ex_events 2 ex_pitch_x = Inr (Some r)"
    by blast
  from count_before_is_previous_count_after [OF cls body]
  obtain events prev prev_count s b outs where
    "dict_get ex_play ''playEvents'' (JArr []) = Inr events"
    "py_index events (int 2 - 1) = Inr prev"
    "dict_get prev ''count'' empty_dict = Inr prev_count"
    "get prev_count ''strikes'' = Inr s" "get prev_count ''balls'' = Inr b"
    "get prev_count ''outs'' = Inr outs"
    "map_of r ''strikes'' = Some (J s)" "map_of r ''balls'' = Some (J b)"
    "map_of r ''outs'' = Some (J outs)"
    by auto
  then have "map_of r ''strikes'' = Some (J (JInt 0)) \<and>
        map_of r ''balls'' = Some (J (JInt 1)) \<and>
        map_of r ''outs'' = Some (J (JInt 2))"
    by (auto simp: ex_defs eval_defs)
  with cls ex_body_pickoff body show ?thesis by blast
qed

text \<open>
  C3. The record of a pitch or call event takes its seven at-bat result fields (\<open>type_ab\<close>,
  \<open>event\<close>, \<open>event_type\<close>, \<open>rbi\<close>, \<open>away_score\<close>, \<open>home_score\<close>, \<open>is_out\<close>) from the result
  of the play when the index of the event is \<open>len(play_events) - 1\<close>, and has \<open>np.nan\<close> in
  all seven at any other index.
\<close>

theorem ab_result_only_on_last_event:
  assumes "is_pitch_or_call event = Inr True"
    and "play_event_body play game_data play_events n event = Inr (Some r)"
  shows "\<exists>l. py_len play_events = Inr l \<and>
     (int n = l - 1 \<longrightarrow>
        (\<exists>result t ev et rbi a h out.
           dict_get play ''result'' empty_dict = Inr result \<and>
           get result ''type'' = Inr t \<and> get result ''event'' = Inr ev \<and>
           get result ''eventType'' = Inr et \<and> get result ''rbi'' = Inr rbi \<and>
           get result ''awayScore'' = Inr a \<and> get result ''homeScore'' = Inr h \<and>
           get result ''isOut'' = Inr out \<and>
           map_of r ''type_ab'' = Some (J t) \<and> map_of r ''event'' = Some (J ev) \<and>
           map_of r ''event_type'' = Some (J et) \<and> map_of r ''rbi'' = Some (J rbi) \<and>
           map_of r ''away_score'' = Some (J a) \<and> map_of r ''home_score'' = Some (J h) \<and>
           map_of r ''is_out'' = Some (J out))) \<and>
     (int n \<noteq> l - 1 \<longrightarrow>
        map_of r ''type_ab'' = Some NaN \<and> map_of r ''event'' = Some NaN \<and>
        map_of r ''event_type'' = Some NaN \<and> map_of r ''rbi'' = Some NaN \<and>
        map_of r ''away_score'' = Some NaN \<and> map_of r ''home_score'' = Some NaN \<and>
        map_of r ''is_out'' = Some NaN)"
proof -
  from assms have "extract_event_data play event n play_events = Inr r"
    by (rule play_event_body_pitch_Some)
  then obtain p e cnt l ab where pe: "play = JObj p" "event = JObj e"
    and cnt: "get_count_data play event n = Inr cnt"
    and l: "py_len play_events = Inr l"
    and ab: "get_ab_result play (int n) (l - 1) = Inr ab"
    and r: "r = event_record p e cnt ab"
    using extract_event_data_Inr by blast
  note k = keys_count [OF cnt]
  have look: "map_of r ''type_ab'' = map_of ab ''type_ab''"
      "map_of r ''event'' = map_of ab ''event''"
      "map_of r ''event_type'' = map_of ab ''event_type''"
      "map_of r ''rbi'' = map_of ab ''rbi''"
      "map_of r ''away_score'' = map_of ab ''away_score''"
      "map_of r ''home_score'' = map_of ab ''home_score''"
      "map_of r ''is_out'' = map_of ab ''is_out''"
    unfolding r by (simp_all add: map_of_event_record_ab [OF k])
  show ?thesis
  proof (cases "int n = l - 1")
    case True
    with ab have "has_obj p ''result''" "ab = result_items (child p ''result'')"
      unfolding pe by (simp_all add: get_ab_result_iff)
    then show ?thesis
      unfolding look using True l pe
      by (simp add: result_items_def has_obj_get_or)
  next
    case False
    with ab have "ab = nan_result_items"
      unfolding pe by (simp add: get_ab_result_iff)
    then show ?thesis
      unfolding look using False l
      by (simp add: nan_result_items_def)
  qed
qed

theorem ab_result_only_on_last_event_witness:
  "is_pitch_or_call ex_pitch_b = Inr True \<and> is_pitch_or_call ex_pitch_x = Inr True \<and>
   (\<exists>r. play_event_body ex_play ex_doc ex_events 0 ex_pitch_b = Inr (Some r) \<and>
        map_of r ''type_ab'' = Some NaN \<and> map_of r ''event'' = Some NaN \<and>
        map_of r ''is_out'' = Some NaN) \<and>
   (\<exists>r. play_event_body ex_play ex_doc ex_events 2 ex_pitch_x = Inr (Some r) \<and>
        map_of r ''type_ab'' = Some (J (JStr ''atBat'')) \<and>
        map_of r ''event'' = Some (J (JStr ''Single'')) \<and>
        map_of r ''is_out'' = Some (J JNull))"
proof -
  from ex_body_b obtain rb where
    b: "play_event_body ex_play ex_doc ex_events 0 ex_pitch_b = Inr (Some rb)"
    by blast
  from ex_body_x obtain rx where
    x: "play_event_body ex_play ex_doc ex_events 2 ex_pitch_x = Inr (Some rx)"
    by blast
  have len: "py_len ex_events = Inr 3"
    by (simp add: ex_events_def)
  from ab_result_only_on_last_event [OF ex_is_pitch_or_call(1) b] len
  have 1: "map_of rb ''type_ab'' = Some NaN \<and> map_of rb ''event'' = Some NaN \<and>
        map_of rb ''is_out'' = Some NaN"
    by auto
  from ab_result_only_on_last_event [OF ex_is_pitch_or_call(3) x] len
  have 2: "map_of rx ''type_ab'' = Some (J (JStr ''atBat'')) \<and>
        map_of rx ''event'' = Some (J (JStr ''Single'')) \<and>
        map_of rx ''is_out'' = Some (J JNull)"
    by (auto simp: ex_play_def eval_defs)
  from ex_is_pitch_or_call b x 1 2 show ?thesis by blast
qed

text \<open>
  C9. In the record of a pitch or call event, with \<open>code\<close> the value of
  \<open>details.get("code")\<close>: \<open>is_swing\<close> is True exactly when \<open>code\<close> is one of X, F, S, D, E,
  T, W; \<open>is_whiff\<close> is True exactly when \<open>code\<close> is one of S, T, W; and both fields are
  \<open>np.nan\<close> when \<open>code\<close> is not true, which is the case when the details have no
  \<open>code\<close> key (\<open>code\<close> is then None).
\<close>

theorem swing_and_whiff_flags:
  assumes "is_pitch_or_call event = Inr True"
    and "play_event_body play game_data play_events n event = Inr (Some r)"
  shows "\<exists>details code.
     dict_get event ''details'' empty_dict = Inr details \<and>
     get details ''code'' = Inr code \<and>
     (map_of r ''is_swing'' = Some (J (JBool True)) \<longleftrightarrow>
        code \<in> JStr ` {''X'', ''F'', ''S'', ''D'', ''E'', ''T'', ''W''}) \<and>
     (map_of r ''is_whiff'' = Some (J (JBool True)) \<longleftrightarrow>
        code \<in> JStr ` {''S'', ''T'', ''W''}) \<and>
     (str_in ''code'' details = Inr False \<longrightarrow> code = JNull) \<and>
     (\<not> truthy code \<longrightarrow>
        map_of r ''is_swing'' = Some NaN \<and> map_of r ''is_whiff'' = Some NaN)"
proof -
  from assms have "extract_event_data play event n play_events = Inr r"
    by (rule play_event_body_pitch_Some)
  then obtain p e cnt ab where pe: "play = JObj p" "event = JObj e"
    and sh: "event_shape p e"
    and cnt: "get_count_data play event n = Inr cnt"
    and r: "r = event_record p e cnt ab"
    using extract_event_data_Inr by blast
  note f = map_of_event_record_flags [OF keys_count [OF cnt]]
  from sh have d: "has_obj e ''details''" by (simp add: event_shape_def)
  let ?c = "val (child e ''details'') ''code''"
  have 1: "dict_get event ''details'' empty_dict = Inr (JObj (child e ''details''))"
    "get (JObj (child e ''details'')) ''code'' = Inr ?c"
    using d pe by (simp_all add: has_obj_get_or)
  have 2: "map_of r ''is_swing'' = Some (J (JBool True)) \<longleftrightarrow>
        ?c \<in> JStr ` {''X'', ''F'', ''S'', ''D'', ''E'', ''T'', ''W''}"
    unfolding r f by (cases ?c) (auto simp: in_str_list_def swing_list_def)
  have 3: "map_of r ''is_whiff'' = Some (J (JBool True)) \<longleftrightarrow>
        ?c \<in> JStr ` {''S'', ''T'', ''W''}"
    unfolding r f by (cases ?c) (auto simp: in_str_list_def whiff_list_def)
  have 4: "str_in ''code'' (JObj (child e ''details'')) = Inr False \<longrightarrow> ?c = JNull"
    by (auto simp: val_def get_or_def)
  have 5: "\<not> truthy ?c \<longrightarrow>
        map_of r ''is_swing'' = Some NaN \<and> map_of r ''is_whiff'' = Some NaN"
    unfolding r f by simp
  from 1 2 3 4 5 show ?thesis by blast
qed

theorem swing_and_whiff_flags_witness:
  "is_pitch_or_call ex_pitch_b = Inr True \<and> is_pitch_or_call ex_pitch_x = Inr True \<and>
   (\<exists>r. play_event_body ex_play ex_doc ex_events 0 ex_pitch_b = Inr (Some r) \<and>
        map_of r ''is_swing'' = Some NaN \<and> map_of r ''is_whiff'' = Some NaN) \<and>
   (\<exists>r. play_event_body ex_play ex_doc ex_events 2 ex_pitch_x = Inr (Some r) \<and>
        map_of r ''is_swing'' = Some (J (JBool True)) \<and>
        map_of r ''is_whiff'' \<noteq> Some (J (JBool True)))"
proof -
  from ex_body_b obtain rb where
    b: "play_event_body ex_play ex_doc ex_events 0 ex_pitch_b = Inr (Some rb)"
    by blast
  from ex_body_x obtain rx where
    x: "play_event_body ex_play ex_doc ex_events 2 ex_pitch_x = Inr (Some rx)"
    by blast
  from swing_and_whiff_flags [OF ex_is_pitch_or_call(1) b]
  have 1: "map_of rb ''is_swing'' = Some NaN \<and> map_of rb ''is_whiff'' = Some NaN"
    by (auto simp: ex_pitch_b_def eval_defs)
  from swing_and_whiff_flags [OF ex_is_pitch_or_call(3) x]
  have 2: "map_of rx ''is_swing'' = Some (J (JBool True)) \<and>
        map_of rx ''is_whiff'' \<noteq> Some (J (JBool True))"
    by (auto simp: ex_pitch_x_def eval_defs)
  from ex_is_pitch_or_call b x 1 2 show ?thesis by blast
qed

text \<open>
  C10. The record of a walk-by-count event (not a pitch, no call, four balls) has the same
  count before and after the event: \<open>strikes\<close>, \<open>balls\<close>, \<open>outs\<close> and \<open>strikes_after\<close>,
  \<open>balls_after\<close>, \<open>outs_after\<close> are all read from the count of the event itself, whatever
  the index of the event and the events before it.
\<close>

theorem walk_count_before_equals_count_after:
  assumes "is_pitch_or_call event = Inr False"
    and "has_four_balls event = Inr True"
    and "play_event_body play game_data play_events n event = Inr (Some r)"
  shows "\<exists>count s b outs.
     dict_get event ''count'' empty_dict = Inr count \<and>
     get count ''strikes'' = Inr s \<and> get count ''balls'' = Inr b \<and>
     get count ''outs'' = Inr outs \<and>
     map_of r ''strikes'' = Some (J s) \<and> map_of r ''strikes_after'' = Some (J s) \<and>
     map_of r ''balls'' = Some (J b) \<and> map_of r ''balls_after'' = Some (J b) \<and>
     map_of r ''outs'' = Some (J outs) \<and> map_of r ''outs_after'' = Some (J outs)"
proof -
  from play_event_body_walk_Inr [OF assms]
  obtain p e where pe: "play = JObj p" "event = JObj e" and sh: "walk_shape p e"
    and r: "r = walk_record p e"
    by auto
  from sh have "has_obj e ''count''" by (simp add: walk_shape_def)
  then have "dict_get event ''count'' empty_dict = Inr (JObj (child e ''count''))"
    using pe by (simp add: has_obj_get_or)
  then show ?thesis
    unfolding r by (simp add: map_of_walk_record)
qed

theorem walk_count_before_equals_count_after_witness:
  "is_pitch_or_call ex_walk_event = Inr False \<and> has_four_balls ex_walk_event = Inr True \<and>
   (\<exists>r. play_event_body ex_walk_play ex_walk_doc (JArr [ex_walk_event]) 0 ex_walk_event
           = Inr (Some r) \<and>
        map_of r ''strikes'' = Some (J (JInt 2)) \<and>
        map_of r ''strikes_after'' = Some (J (JInt 2)) \<and>
        map_of r ''balls'' = Some (J (JInt 4)) \<and>
        map_of r ''balls_after'' = Some (J (JInt 4)) \<and>
        map_of r ''outs'' = Some (J (JInt 1)) \<and>
        map_of r ''outs_after'' = Some (J (JInt 1)))"
proof -
  note body = ex_walk_body [of "JArr [ex_walk_event]" 0]
  from walk_count_before_equals_count_after [OF ex_walk_cls body]
  have "map_of (walk_record (obj_items ex_walk_play) (obj_items ex_walk_event)) ''strikes''
          = Some (J (JInt 2)) \<and>
        map_of (walk_record (obj_items ex_walk_play) (obj_items ex_walk_event)) ''strikes_after''
          = Some (J (JInt 2)) \<and>
        map_of (walk_record (obj_items ex_walk_play) (obj_items ex_walk_event)) ''balls''
          = Some (J (JInt 4)) \<and>
        map_of (walk_record (obj_items ex_walk_play) (obj_items ex_walk_event)) ''balls_after''
          = Some (J (JInt 4)) \<and>
        map_of (walk_record (obj_items ex_walk_play) (obj_items ex_walk_event)) ''outs''
          = Some (J (JInt 1)) \<and>
        map_of (walk_record (obj_items ex_walk_play) (obj_items ex_walk_event)) ''outs_after''
          = Some (J (JInt 1))"
    by (auto simp: ex_walk_event_def eval_defs)
  with ex_walk_cls body show ?thesis by blast
qed

text \<open>
  C2, as amended. For a walk-by-count event the body of the loop appends exactly one record
  (unless a lookup raises); its count before and its count after are both the count of the
  event itself; \<open>event\<close> and \<open>event_type\<close> are read from the result of the play; and every
  field named in \<open>remaining_fields\<close> (the details, pitch and hit fields, \<open>ab_number\<close>, and
  the result fields \<open>type_ab\<close>, \<open>rbi\<close>, \<open>away_score\<close>, \<open>home_score\<close>, \<open>is_out\<close>) is \<open>np.nan\<close>.
\<close>

theorem walk_record_fields:
  assumes "is_pitch_or_call event = Inr False"
    and "has_four_balls event = Inr True"
    and "play_event_body play game_data play_events n event = Inr res"
  shows "\<exists>r count s b outs result ev et.
     res = Some r \<and>
     dict_get event ''count'' empty_dict = Inr count \<and>
     get count ''strikes'' = Inr s \<and> get count ''balls'' = Inr b \<and>
     get count ''outs'' = Inr outs \<and>
     map_of r ''strikes'' = Some (J s) \<and> map_of r ''strikes_after'' = Some (J s) \<and>
     map_of r ''balls'' = Some (J b) \<and> map_of r ''balls_after'' = Some (J b) \<and>
     map_of r ''outs'' = Some (J outs) \<and> map_of r ''outs_after'' = Some (J outs) \<and>
     dict_get play ''result'' empty_dict = Inr result \<and>
     get result ''event'' = Inr ev \<and> get result ''eventType'' = Inr et \<and>
     map_of r ''event'' = Some (J ev) \<and> map_of r ''event_type'' = Some (J et) \<and>
     (\<forall>f \<in> set remaining_fields. map_of r f = Some NaN)"
proof -
  from play_event_body_walk_Inr [OF assms]
  obtain p e where pe: "play = JObj p" "event = JObj e" and sh: "walk_shape p e"
    and r: "res = Some (walk_record p e)"
    by auto
  from sh have "has_obj e ''count''" "has_obj p ''result''" by (simp_all add: walk_shape_def)
  then have "dict_get event ''count'' empty_dict = Inr (JObj (child e ''count''))"
     "dict_get play ''result'' empty_dict = Inr (JObj (child p ''result''))"
    using pe by (simp_all add: has_obj_get_or)
  then show ?thesis
    unfolding r by (simp add: map_of_walk_record map_of_walk_record_nan)
qed

theorem walk_record_fields_witness:
  "is_pitch_or_call ex_walk_event = Inr False \<and> has_four_balls ex_walk_event = Inr True \<and>
   (\<exists>r. play_event_body ex_walk_play ex_walk_doc (JArr [ex_walk_event]) 0 ex_walk_event
           = Inr (Some r) \<and>
        map_of r ''balls'' = Some (J (JInt 4)) \<and>
        map_of r ''event'' = Some (J (JStr ''Intent Walk'')) \<and>
        map_of r ''event_type'' = Some (J (JStr ''intent_walk'')) \<and>
        map_of r ''rbi'' = Some NaN \<and> map_of r ''start_speed'' = Some NaN \<and>
        map_of r ''ab_number'' = Some NaN)"
proof -
  note body = ex_walk_body [of "JArr [ex_walk_event]" 0]
  from walk_record_fields [OF ex_walk_cls body]
  have "map_of (walk_record (obj_items ex_walk_play) (obj_items ex_walk_event)) ''balls''
          = Some (J (JInt 4)) \<and>
        map_of (walk_record (obj_items ex_walk_play) (obj_items ex_walk_event)) ''event''
          = Some (J (JStr ''Intent Walk'')) \<and>
        map_of (walk_record (obj_items ex_walk_play) (obj_items ex_walk_event)) ''event_type''
          = Some (J (JStr ''intent_walk'')) \<and>
        map_of (walk_record (obj_items ex_walk_play) (obj_items ex_walk_event)) ''rbi''
          = Some NaN \<and>
        map_of (walk_record (obj_items ex_walk_play) (obj_items ex_walk_event)) ''start_speed''
          = Some NaN \<and>
        map_of (walk_record (obj_items ex_walk_play) (obj_items ex_walk_event)) ''ab_number''
          = Some NaN"
    by (auto simp: ex_walk_event_def ex_walk_play_def eval_defs remaining_fields_def)
  with ex_walk_cls body show ?thesis by blast
qed

text \<open>
  C2 as stated fails on the play whose only event is the intentional walk above, with the
  count 4 balls, 2 strikes, 1 out: the record at index 0 has 2 strikes and 4 balls before the
  event, not 0 and 0, and its \<open>rbi\<close> is \<open>np.nan\<close> although the result of the play has one.
\<close>

theorem walk_count_before_baseline_counterexample:
  "map_sum id (map (values_at [''strikes'', ''balls'', ''outs'', ''rbi'']))
     (extract_play_data ex_walk_play ex_walk_doc)
   = Inr [[Some (J (JInt 2)), Some (J (JInt 4)), Some (J (JInt 1)), Some NaN]]"
  unfolding ex_walk_play_data
  by (simp add: values_at_def map_of_walk_record map_of_walk_record_nan remaining_fields_def
        obj_items_def ex_walk_event_def eval_defs)

end
